theory Spec2Isabelle
  imports Main
begin

section \<open>Python values\<close>

text \<open>
  The values that travel through \<^verbatim>\<open>flexget/plugins/daemon/scheduler.py\<close> are JSON-like:
  the \<^verbatim>\<open>schedules\<close> entry of the configuration, the request bodies and the response bodies.
  A Python dict is an association list read with \<open>map_of\<close>. Non-integral numbers carry their
  literal text only: nothing in the module computes with them.
\<close>

datatype json =
    JNull
  | JBool bool
  | JInt int
  | JFloat string
  | JStr string
  | JArr "json list"
  | JObj "(string \<times> json) list"

type_synonym dict = "(string \<times> json) list"

text \<open>\<^verbatim>\<open>k in d\<close>, \<^verbatim>\<open>d[k] = v\<close>, \<^verbatim>\<open>del d[k]\<close> and \<^verbatim>\<open>d.update(e)\<close>.\<close>

definition has_key :: "dict \<Rightarrow> string \<Rightarrow> bool" where
  "has_key d k = (map_of d k \<noteq> None)"

fun dict_set :: "string \<Rightarrow> json \<Rightarrow> dict \<Rightarrow> dict" where
  "dict_set k v [] = [(k, v)]"
| "dict_set k v (p # ps) = (if fst p = k then (k, v) # ps else p # dict_set k v ps)"

definition dict_del :: "string \<Rightarrow> dict \<Rightarrow> dict" where
  "dict_del k d = filter (\<lambda>p. fst p \<noteq> k) d"

definition dict_update :: "dict \<Rightarrow> dict \<Rightarrow> dict" where
  "dict_update d e = fold (\<lambda>p. dict_set (fst p) (snd p)) e d"

text \<open>
  The exceptions the module can meet, and the outcome of a call: a returned value or a
  raised exception.
\<close>

datatype exn =
    KeyError string
  | TypeError string
  | ValueError string
  | AttributeError string
  | ConflictingIdError string
  | PersistenceError

datatype 'a outcome = Returned 'a | Raised exn

text \<open>
  The schedule dicts are mutable objects and the module tells them apart by the builtin
  \<^verbatim>\<open>id()\<close>, the object's identity in the running process. An object reference is its
  address; the heap gives the dict stored there. \<^verbatim>\<open>unicode(n)\<close> of a non-negative integer is
  its decimal numeral.
\<close>

type_synonym ref = nat

definition py_id :: "ref \<Rightarrow> nat" where
  "py_id r = r"

definition digit :: "nat \<Rightarrow> char" where
  "digit n = ''0123456789'' ! n"

fun unicode :: "nat \<Rightarrow> string" where
  "unicode n = (if n < 10 then [digit n] else unicode (n div 10) @ [digit (n mod 10)])"

declare unicode.simps [simp del]

text \<open>
  \<^verbatim>\<open>job_id(conf)\<close> hashes the key-sorted JSON text of a schedule dict. \<^verbatim>\<open>hashlib\<close> and
  \<^verbatim>\<open>json\<close> are libraries: the digest and the serializer are parameters.
\<close>

definition job_id :: "(string \<Rightarrow> string) \<Rightarrow> (json \<Rightarrow> string) \<Rightarrow> dict \<Rightarrow> string" where
  "job_id sha1_hexdigest dumps_sort_keys conf = sha1_hexdigest (dumps_sort_keys (JObj conf))"

section \<open>The scheduler runtime (APScheduler's BackgroundScheduler)\<close>

text \<open>
  The runtime is a library object. Its model keeps what the module reads (\<^verbatim>\<open>running\<close>,
  \<^verbatim>\<open>get_jobs()\<close>, \<^verbatim>\<open>get_job(id)\<close>) and records every call that went through, in order, so
  that what reconciliation adds and removes can be read off the calls themselves.
\<close>

datatype trigger = Interval dict | Cron dict

record job =
  ident :: string
  name :: string
  args :: "string list"
  trig :: trigger
  next_run_time :: "int option"

datatype call = Add_job string | Remove_job string | Start | Shutdown

record sched =
  running :: bool
  timezone :: string
  coalesce :: bool
  misfire_grace_time :: nat
  jobs :: "job list"
  calls :: "call list"

definition get_jobs :: "sched \<Rightarrow> job list" where
  "get_jobs s = jobs s"

definition get_job :: "string \<Rightarrow> sched \<Rightarrow> job option" where
  "get_job i s = find (\<lambda>j. ident j = i) (jobs s)"

text \<open>
  \<^verbatim>\<open>scheduler.add_job\<close> can refuse a job: it builds the trigger from the trigger arguments
  first, which the trigger class may reject (\<open>accepted\<close>, the library's decision); a job's
  name has to be a non-empty string; and the job store holds one job per id. While the
  scheduler is not running the library meets a second job of the same id only when it stores
  the pending jobs at \<^verbatim>\<open>start()\<close>, later in the same call of \<^verbatim>\<open>setup_jobs\<close>; the model
  raises at \<^verbatim>\<open>add_job\<close> in both cases.
\<close>

definition add_job :: "(trigger \<Rightarrow> bool) \<Rightarrow> job \<Rightarrow> sched \<Rightarrow> sched outcome" where
  "add_job accepted j s =
     (if \<not> accepted (trig j) then Raised (ValueError ''trigger arguments'')
      else if name j = [] then Raised (TypeError ''name must be a nonempty string'')
      else if ident j \<in> set (map ident (jobs s)) then Raised (ConflictingIdError (ident j))
      else Returned (s\<lparr>jobs := jobs s @ [j], calls := calls s @ [Add_job (ident j)]\<rparr>))"

definition remove_job :: "string \<Rightarrow> sched \<Rightarrow> sched" where
  "remove_job i s =
     s\<lparr>jobs := filter (\<lambda>j. ident j \<noteq> i) (jobs s), calls := calls s @ [Remove_job i]\<rparr>"

definition start :: "sched \<Rightarrow> sched" where
  "start s = s\<lparr>running := True, calls := calls s @ [Start]\<rparr>"

definition shutdown :: "sched \<Rightarrow> sched" where
  "shutdown s = s\<lparr>running := False, calls := calls s @ [Shutdown]\<rparr>"

text \<open>The ids a sequence of calls registered and deregistered.\<close>

fun added :: "call list \<Rightarrow> string list" where
  "added [] = []"
| "added (Add_job i # cs) = i # added cs"
| "added (c # cs) = added cs"

fun removed :: "call list \<Rightarrow> string list" where
  "removed [] = []"
| "removed (Remove_job i # cs) = i # removed cs"
| "removed (c # cs) = removed cs"

section \<open>The manager and the module state\<close>

text \<open>
  \<^verbatim>\<open>manager.config['schedules']\<close> is absent, \<^verbatim>\<open>False\<close> or a list of schedule dicts (held by
  reference). What \<^verbatim>\<open>save_config()\<close> last wrote is kept by value.
\<close>

datatype schedules_value = Absent | Disabled | Schedule_list "ref list"

datatype saved_value = Saved_absent | Saved_disabled | Saved_list "dict list"

datatype level = INFO | WARNING

record state =
  is_daemon :: bool
  schedules :: schedules_value
  heap :: "ref \<Rightarrow> dict"
  saved :: saved_value
  scheduler :: "sched option"
  log :: "(level \<times> string) list"

text \<open>
  What the module takes from outside: whether the durable write fails, the address at which
  a dict literal is allocated, which trigger arguments the runtime accepts, and the first
  fire time the runtime gives a new job.
\<close>

record env =
  save_fails :: bool
  fresh :: ref
  trigger_accepted :: "trigger \<Rightarrow> bool"
  first_run_time :: "trigger \<Rightarrow> int option"

definition log_info :: "string \<Rightarrow> state \<Rightarrow> state" where
  "log_info m st = st\<lparr>log := log st @ [(INFO, m)]\<rparr>"

definition log_warning :: "string \<Rightarrow> state \<Rightarrow> state" where
  "log_warning m st = st\<lparr>log := log st @ [(WARNING, m)]\<rparr>"

section \<open>Reconciliation: \<^verbatim>\<open>setup_jobs\<close>\<close>

definition default_schedule :: dict where
  "default_schedule =
     [(''tasks'', JArr [JStr ''*'']), (''interval'', JObj [(''hours'', JInt 1)])]"

text \<open>\<^verbatim>\<open>','.join(tasks)\<close>: every item has to be a string.\<close>

fun strings_of :: "json list \<Rightarrow> string list option" where
  "strings_of [] = Some []"
| "strings_of (JStr s # js) = map_option ((#) s) (strings_of js)"
| "strings_of (j # js) = None"

fun join :: "string \<Rightarrow> string list \<Rightarrow> string" where
  "join sep [] = []"
| "join sep [s] = s"
| "join sep (s # ss) = s @ sep @ join sep ss"

text \<open>
  The body of the loop over the configured schedules, from the choice of the trigger to the
  arguments of \<^verbatim>\<open>scheduler.add_job\<close>: the job record that is registered, or the exception
  raised on the way.
\<close>

definition new_job :: "env \<Rightarrow> string \<Rightarrow> dict \<Rightarrow> job outcome" where
  "new_job e jid job_config =
     (case (if has_key job_config ''interval'' then map_of job_config ''interval''
            else map_of job_config ''schedule'') of
        None \<Rightarrow> Raised (KeyError ''schedule'')
      | Some trigger_args \<Rightarrow>
          (case map_of job_config ''tasks'' of
             None \<Rightarrow> Raised (KeyError ''tasks'')
           | Some tasks \<Rightarrow>
               (case strings_of (case tasks of JArr ts \<Rightarrow> ts | _ \<Rightarrow> [tasks]) of
                  None \<Rightarrow> Raised (TypeError ''sequence item: expected string'')
                | Some ts \<Rightarrow>
                    (case trigger_args of
                       JObj kw \<Rightarrow>
                         (let t = (if has_key job_config ''interval'' then Interval kw
                                   else Cron kw)
                          in Returned \<lparr>ident = jid, name = join '','' ts, args = ts,
                                       trig = t, next_run_time = first_run_time e t\<rparr>)
                     | _ \<Rightarrow> Raised (TypeError ''argument after ** must be a mapping'')))))"

fun add_configured ::
  "env \<Rightarrow> (ref \<Rightarrow> dict) \<Rightarrow> string list \<Rightarrow> ref list \<Rightarrow> string list \<Rightarrow> sched
     \<Rightarrow> string list outcome \<times> sched" where
  "add_configured e h existing_job_ids [] configured_job_ids s =
     (Returned configured_job_ids, s)"
| "add_configured e h existing_job_ids (job_config # config) configured_job_ids s =
     (let jid = unicode (py_id job_config);
          configured_job_ids' = configured_job_ids @ [jid]
      in if jid \<in> set existing_job_ids
         then add_configured e h existing_job_ids config configured_job_ids' s
         else (case new_job e jid (h job_config) of
                 Raised x \<Rightarrow> (Raised x, s)
               | Returned j \<Rightarrow>
                   (case add_job (trigger_accepted e) j s of
                      Raised x \<Rightarrow> (Raised x, s)
                    | Returned s1 \<Rightarrow>
                        add_configured e h existing_job_ids config configured_job_ids' s1)))"

fun remove_unconfigured :: "string list \<Rightarrow> string list \<Rightarrow> sched \<Rightarrow> sched" where
  "remove_unconfigured configured_job_ids [] s = s"
| "remove_unconfigured configured_job_ids (jid # existing_job_ids) s =
     remove_unconfigured configured_job_ids existing_job_ids
       (if jid \<notin> set configured_job_ids then remove_job jid s else s)"

text \<open>
  \<^verbatim>\<open>manager.config.get('schedules', [{'tasks': ['*'], 'interval': {'hours': 1}}])\<close>: the
  default is a dict literal, allocated anew at each call. \<open>None\<close> stands for \<^verbatim>\<open>False\<close>.
\<close>

definition config_get :: "env \<Rightarrow> state \<Rightarrow> ref list option \<times> (ref \<Rightarrow> dict)" where
  "config_get e st =
     (case schedules st of
        Absent \<Rightarrow> (Some [fresh e], (heap st)(fresh e := default_schedule))
      | Disabled \<Rightarrow> (None, heap st)
      | Schedule_list rs \<Rightarrow> (Some rs, heap st))"

text \<open>
  \<^verbatim>\<open>if not config:\<close> holds for \<^verbatim>\<open>False\<close> and for the empty list. \<open>switch_off\<close> is that
  branch, which ends the call; \<open>reconcile\<close> is the rest of the function, from
  \<^verbatim>\<open>existing_job_ids = ...\<close> on. With no scheduler object (\<^verbatim>\<open>scheduler = None\<close>) the first
  attribute access raises.
\<close>

definition switch_off :: "state \<Rightarrow> unit outcome \<times> state" where
  "switch_off st =
     (case scheduler st of
        None \<Rightarrow> (Raised (AttributeError ''running''), st)
      | Some s \<Rightarrow>
          if running s
          then (Returned (),
                (log_info ''Shutting down scheduler'' st)\<lparr>scheduler := Some (shutdown s)\<rparr>)
          else (Returned (), st))"

definition reconcile :: "env \<Rightarrow> (ref \<Rightarrow> dict) \<Rightarrow> ref list \<Rightarrow> state \<Rightarrow> unit outcome \<times> state" where
  "reconcile e h config st =
     (case scheduler st of
        None \<Rightarrow> (Raised (AttributeError ''get_jobs''), st)
      | Some s \<Rightarrow>
          let existing_job_ids = map ident (get_jobs s)
          in (case add_configured e h existing_job_ids config [] s of
                (Raised x, s1) \<Rightarrow> (Raised x, st\<lparr>scheduler := Some s1\<rparr>)
              | (Returned configured_job_ids, s1) \<Rightarrow>
                  let s2 = remove_unconfigured configured_job_ids existing_job_ids s1
                  in if \<not> running s2
                     then (Returned (),
                           (log_info ''Starting scheduler'' st)\<lparr>scheduler := Some (start s2)\<rparr>)
                     else (Returned (), st\<lparr>scheduler := Some s2\<rparr>)))"

definition setup_jobs :: "env \<Rightarrow> state \<Rightarrow> unit outcome \<times> state" where
  "setup_jobs e st =
     (if \<not> is_daemon st then (Returned (), st)
      else
        let st1 = (if schedules st = Absent
                   then log_info ''No schedules defined in config. Defaulting to run all tasks on a 1 hour interval.'' st
                   else st);
            (config, h) = config_get e st1
        in (case config of
              None \<Rightarrow> switch_off st1
            | Some [] \<Rightarrow> switch_off st1
            | Some rs \<Rightarrow> reconcile e h rs st1))"

section \<open>Start-up: \<^verbatim>\<open>setup_scheduler\<close>\<close>

text \<open>What \<^verbatim>\<open>tzlocal.get_localzone()\<close> does: return a zone or raise one of two exceptions.\<close>

datatype localzone = Zone string | Unknown_time_zone_error | Struct_error string

definition utc_message :: string where
  "utc_message = ''Local timezone name could not be determined. Scheduler will display times in UTC for any logmessages. To resolve this set up /etc/timezone with correct time zone name.''"

definition resolve_timezone :: "localzone \<Rightarrow> state \<Rightarrow> string \<times> state" where
  "resolve_timezone lz st =
     (let (tz, st1) =
            (case lz of
               Zone z \<Rightarrow> (if z = ''local'' then None else Some z, st)
             | Unknown_time_zone_error \<Rightarrow> (None, st)
             | Struct_error m \<Rightarrow> (None, log_warning (''Hiding exception from tzlocal: '' @ m) st))
      in (case tz of
            None \<Rightarrow> (''UTC'', log_info utc_message st1)
          | Some z \<Rightarrow> (z, st1)))"

text \<open>
  \<open>stored\<close> is what the SQLAlchemy job store holds from earlier runs of the daemon.
\<close>

definition setup_scheduler :: "env \<Rightarrow> localzone \<Rightarrow> job list \<Rightarrow> state \<Rightarrow> unit outcome \<times> state" where
  "setup_scheduler e lz stored st =
     (let (tz, st1) = resolve_timezone lz st;
          st2 = st1\<lparr>scheduler :=
                  Some \<lparr>running = False, timezone = tz, coalesce = True,
                        misfire_grace_time = 60 * 60 * 24, jobs = stored, calls = []\<rparr>\<rparr>
      in setup_jobs e st2)"

section \<open>The collaborators of the HTTP handlers\<close>

text \<open>
  Modelled from the spec: \<^verbatim>\<open>manager.save_config()\<close> is defined in \<^verbatim>\<open>flexget.manager\<close>, which
  is not among the sources. The spec's \<^verbatim>\<open>persistConfig()\<close> writes the in-memory
  configuration to durable storage, or fails with a PersistenceError.
\<close>

definition snapshot :: "state \<Rightarrow> saved_value" where
  "snapshot st =
     (case schedules st of
        Absent \<Rightarrow> Saved_absent
      | Disabled \<Rightarrow> Saved_disabled
      | Schedule_list rs \<Rightarrow> Saved_list (map (heap st) rs))"

definition save_config :: "env \<Rightarrow> state \<Rightarrow> unit outcome \<times> state" where
  "save_config e st =
     (if save_fails e then (Raised PersistenceError, st)
      else (Returned (), st\<lparr>saved := snapshot st\<rparr>))"

text \<open>
  Modelled from the spec: \<^verbatim>\<open>manager.config_changed()\<close> is defined in \<^verbatim>\<open>flexget.manager\<close>
  too. The spec's \<^verbatim>\<open>notifyConfigChanged()\<close> signals the config-updated event, and the
  handler this module registers for \<^verbatim>\<open>manager.config_updated\<close> is \<^verbatim>\<open>setup_jobs\<close>.
\<close>

definition config_changed :: "env \<Rightarrow> state \<Rightarrow> unit outcome \<times> state" where
  "config_changed e st = setup_jobs e st"

record response =
  status :: nat
  body :: json

definition jsonify :: "dict \<Rightarrow> nat \<Rightarrow> response" where
  "jsonify d code = \<lparr>status = code, body = JObj d\<rparr>"

text \<open>
  The three statements that end every successful mutation:
  \<^verbatim>\<open>manager.save_config(); manager.config_changed(); return jsonify(...)\<close>.
\<close>

definition save_and_signal :: "env \<Rightarrow> response \<Rightarrow> state \<Rightarrow> response outcome \<times> state" where
  "save_and_signal e resp st =
     (case save_config e st of
        (Raised x, st1) \<Rightarrow> (Raised x, st1)
      | (Returned u, st1) \<Rightarrow>
          (case config_changed e st1 of
             (Raised x, st2) \<Rightarrow> (Raised x, st2)
           | (Returned u, st2) \<Rightarrow> (Returned resp, st2)))"

section \<open>The HTTP handlers\<close>

text \<open>
  \<^verbatim>\<open>manager.config.get('schedules', [])\<close> is iterated, or measured with \<^verbatim>\<open>len\<close>: on
  \<^verbatim>\<open>False\<close> both raise a TypeError.
\<close>

definition schedule_by_id :: "nat \<Rightarrow> state \<Rightarrow> dict option outcome" where
  "schedule_by_id schedule_id st =
     (case schedules st of
        Absent \<Rightarrow> Returned None
      | Disabled \<Rightarrow> Raised (TypeError ''bool object is not iterable'')
      | Schedule_list rs \<Rightarrow>
          (case find (\<lambda>schedule. py_id schedule = schedule_id) rs of
             None \<Rightarrow> Returned None
           | Some schedule \<Rightarrow>
               Returned (Some (dict_set ''id'' (JInt (int schedule_id)) (heap st schedule)))))"

text \<open>\<^verbatim>\<open>GET /schedules/\<close>\<close>

definition schedules_GET :: "state \<Rightarrow> response" where
  "schedules_GET st =
     (case schedules st of
        Absent \<Rightarrow> jsonify [(''schedules'', JArr [])] 200
      | Disabled \<Rightarrow> jsonify [(''schedules'', JArr [])] 200
      | Schedule_list rs \<Rightarrow>
          jsonify [(''schedules'',
                    JArr (map (\<lambda>schedule.
                                 JObj (dict_set ''id'' (JInt (int (py_id schedule)))
                                         (heap st schedule))) rs))] 200)"

text \<open>
  \<^verbatim>\<open>POST /schedules/\<close>. The request body's \<^verbatim>\<open>schedule\<close> entry is a dict that the JSON
  parser has allocated at \<open>r\<close>; that very object is appended to the list. Before that, an
  absent, \<^verbatim>\<open>False\<close> or empty \<^verbatim>\<open>schedules\<close> value is replaced by a new empty list
  (\<open>enable\<close>).
\<close>

definition enable :: "schedules_value \<Rightarrow> ref list" where
  "enable v = (case v of Absent \<Rightarrow> [] | Disabled \<Rightarrow> [] | Schedule_list rs \<Rightarrow> rs)"

definition schedules_POST :: "env \<Rightarrow> ref \<Rightarrow> dict \<Rightarrow> state \<Rightarrow> response outcome \<times> state" where
  "schedules_POST e r data_schedule st =
     (let st0 = st\<lparr>heap := (heap st)(r := data_schedule)\<rparr>;
          st1 = st0\<lparr>schedules := Schedule_list (enable (schedules st0) @ [r])\<rparr>
      in (case schedule_by_id (py_id r) st1 of
            Raised x \<Rightarrow> (Raised x, st1)
          | Returned None \<Rightarrow>
              (Returned (jsonify [(''error'', JStr ''schedule went missing after add'')] 500), st1)
          | Returned (Some []) \<Rightarrow>
              (Returned (jsonify [(''error'', JStr ''schedule went missing after add'')] 500), st1)
          | Returned (Some new_schedule) \<Rightarrow>
              save_and_signal e (jsonify [(''schedule'', JObj new_schedule)] 200) st1))"

text \<open>\<^verbatim>\<open>GET /schedules/<int:schedule_id>/\<close>\<close>

definition time_json :: "int option \<Rightarrow> json" where
  "time_json t = (case t of None \<Rightarrow> JNull | Some n \<Rightarrow> JInt n)"

definition get_schedule :: "nat \<Rightarrow> state \<Rightarrow> response outcome" where
  "get_schedule schedule_id st =
     (case schedule_by_id schedule_id st of
        Raised x \<Rightarrow> Raised x
      | Returned None \<Rightarrow> Returned (jsonify [(''error'', JStr ''invalid schedule id'')] 400)
      | Returned (Some []) \<Rightarrow> Returned (jsonify [(''error'', JStr ''invalid schedule id'')] 400)
      | Returned (Some schedule) \<Rightarrow>
          (case scheduler st of
             None \<Rightarrow> Raised (AttributeError ''get_job'')
           | Some s \<Rightarrow>
               (case get_job (unicode schedule_id) s of
                  None \<Rightarrow> Returned (jsonify [(''schedule'', JObj schedule)] 200)
                | Some j \<Rightarrow>
                    Returned (jsonify
                      [(''schedule'',
                        JObj (dict_set ''next_run_time'' (time_json (next_run_time j)) schedule))]
                      200))))"

text \<open>
  \<^verbatim>\<open>for i in range(len(...)): if id(manager.config['schedules'][i]) == schedule_id\<close>: the
  first index whose object has the id.
\<close>

fun index_by_id :: "nat \<Rightarrow> ref list \<Rightarrow> nat option" where
  "index_by_id schedule_id [] = None"
| "index_by_id schedule_id (r # rs) =
     (if py_id r = schedule_id then Some 0 else map_option Suc (index_by_id schedule_id rs))"

text \<open>\<^verbatim>\<open>POST\<close> and \<^verbatim>\<open>PATCH /schedules/<int:schedule_id>/\<close>\<close>

datatype http_method = POST | PATCH

definition update_schedule ::
  "env \<Rightarrow> http_method \<Rightarrow> nat \<Rightarrow> dict \<Rightarrow> state \<Rightarrow> response outcome \<times> state" where
  "update_schedule e method schedule_id data_schedule st =
     (case schedules st of
        Disabled \<Rightarrow> (Raised (TypeError ''object of type bool has no len()''), st)
      | Absent \<Rightarrow> (Returned (jsonify [(''error'', JStr ''Invalid id'')] 400), st)
      | Schedule_list rs \<Rightarrow>
          (case index_by_id schedule_id rs of
             None \<Rightarrow> (Returned (jsonify [(''error'', JStr ''Invalid id'')] 400), st)
           | Some i \<Rightarrow>
               (let new_schedule = dict_del ''id'' data_schedule;
                    cleared = (if method = POST then [] else heap st (rs ! i));
                    st1 = st\<lparr>heap := (heap st)(rs ! i := dict_update cleared new_schedule)\<rparr>
                in (case schedule_by_id schedule_id st1 of
                      Raised x \<Rightarrow> (Raised x, st1)
                    | Returned None \<Rightarrow>
                        (Returned (jsonify
                           [(''error'', JStr ''schedule went missing after update'')] 500), st1)
                    | Returned (Some []) \<Rightarrow>
                        (Returned (jsonify
                           [(''error'', JStr ''schedule went missing after update'')] 500), st1)
                    | Returned (Some updated) \<Rightarrow>
                        save_and_signal e (jsonify [(''schedule'', JObj updated)] 200) st1))))"

text \<open>\<^verbatim>\<open>DELETE /schedules/<int:schedule_id>/\<close>\<close>

definition delete_schedule :: "env \<Rightarrow> nat \<Rightarrow> state \<Rightarrow> response outcome \<times> state" where
  "delete_schedule e schedule_id st =
     (case schedules st of
        Disabled \<Rightarrow> (Raised (TypeError ''object of type bool has no len()''), st)
      | Absent \<Rightarrow> (Returned (jsonify [(''error'', JStr ''invalid schedule id'')] 400), st)
      | Schedule_list rs \<Rightarrow>
          (case index_by_id schedule_id rs of
             None \<Rightarrow> (Returned (jsonify [(''error'', JStr ''invalid schedule id'')] 400), st)
           | Some i \<Rightarrow>
               save_and_signal e (jsonify [(''detail'', JStr ''deleted schedule'')] 400)
                 (st\<lparr>schedules := Schedule_list (take i rs @ drop (Suc i) rs)\<rparr>)))"

section \<open>The configuration schema\<close>

text \<open>
  \<^verbatim>\<open>main_schema\<close> is a JSON Schema, a dict of keywords, registered for the \<^verbatim>\<open>schedules\<close>
  key. The keywords below are the ones the module writes; \<open>valid\<close> gives each its Draft 4
  meaning. \<^verbatim>\<open>error_oneOf\<close> only carries a message. An \<^verbatim>\<open>enum\<close> compares with Python's
  \<^verbatim>\<open>==\<close>, under which \<^verbatim>\<open>False == 0\<close> and \<^verbatim>\<open>True == 1\<close>.
\<close>

datatype jtype = T_array | T_string | T_object | T_number | T_integer | T_boolean

datatype schema = Schema "keyword list"
and keyword =
    Type "jtype list"
  | Properties "(string \<times> schema) list"
  | Items schema
  | Required "string list"
  | One_of "schema list"
  | Error_one_of string
  | Additional_properties bool
  | Enum "json list"
  | Format string

fun has_type :: "jtype \<Rightarrow> json \<Rightarrow> bool" where
  "has_type T_array (JArr xs) = True"
| "has_type T_string (JStr s) = True"
| "has_type T_object (JObj d) = True"
| "has_type T_number (JInt n) = True"
| "has_type T_number (JFloat x) = True"
| "has_type T_integer (JInt n) = True"
| "has_type T_boolean (JBool b) = True"
| "has_type t j = False"

fun py_equal :: "json \<Rightarrow> json \<Rightarrow> bool" where
  "py_equal (JBool b) (JInt n) = (n = (if b then 1 else 0))"
| "py_equal (JInt n) (JBool b) = (n = (if b then 1 else 0))"
| "py_equal x y = (x = y)"

fun property_names :: "keyword list \<Rightarrow> string list" where
  "property_names [] = []"
| "property_names (Properties ps # ks) = map fst ps @ property_names ks"
| "property_names (k # ks) = property_names ks"

text \<open>
  The format checker \<^verbatim>\<open>is_cron_schedule\<close>: anything that is not a dict passes; a dict passes
  when \<^verbatim>\<open>CronTrigger(**instance)\<close> can be built, which is APScheduler's to decide (\<open>cron\<close>).
\<close>

definition is_cron_schedule :: "(dict \<Rightarrow> bool) \<Rightarrow> json \<Rightarrow> bool" where
  "is_cron_schedule cron instance = (case instance of JObj d \<Rightarrow> cron d | _ \<Rightarrow> True)"

fun valid :: "(dict \<Rightarrow> bool) \<Rightarrow> schema \<Rightarrow> json \<Rightarrow> bool"
and valid_keyword :: "(dict \<Rightarrow> bool) \<Rightarrow> string list \<Rightarrow> keyword \<Rightarrow> json \<Rightarrow> bool" where
  "valid cron (Schema ks) j = list_all (\<lambda>k. valid_keyword cron (property_names ks) k j) ks"
| "valid_keyword cron names (Type ts) j = list_ex (\<lambda>t. has_type t j) ts"
| "valid_keyword cron names (Properties ps) j =
     (case j of
        JObj d \<Rightarrow>
          list_all (\<lambda>p. case map_of d (fst p) of None \<Rightarrow> True | Some v \<Rightarrow> valid cron (snd p) v) ps
      | _ \<Rightarrow> True)"
| "valid_keyword cron names (Items s) j =
     (case j of JArr xs \<Rightarrow> list_all (valid cron s) xs | _ \<Rightarrow> True)"
| "valid_keyword cron names (Required rs) j =
     (case j of JObj d \<Rightarrow> list_all (has_key d) rs | _ \<Rightarrow> True)"
| "valid_keyword cron names (One_of ss) j = (length (filter (\<lambda>s. valid cron s j) ss) = 1)"
| "valid_keyword cron names (Error_one_of m) j = True"
| "valid_keyword cron names (Additional_properties allowed) j =
     (case j of
        JObj d \<Rightarrow> allowed \<or> list_all (\<lambda>k. k \<in> set names) (map fst d)
      | _ \<Rightarrow> True)"
| "valid_keyword cron names (Enum vs) j = list_ex (py_equal j) vs"
| "valid_keyword cron names (Format f) j =
     (if f = ''cron_schedule'' then is_cron_schedule cron j else True)"

definition UNITS :: "string list" where
  "UNITS = [''minutes'', ''hours'', ''days'', ''weeks'']"

definition interval_schema :: schema where
  "interval_schema = Schema
     [Type [T_object],
      Properties
        [(''minutes'', Schema [Type [T_number]]),
         (''hours'', Schema [Type [T_number]]),
         (''days'', Schema [Type [T_number]]),
         (''weeks'', Schema [Type [T_number]])],
      One_of (map (\<lambda>unit. Schema [Required [unit]]) UNITS),
      Error_one_of ''Interval must be specified as one of minutes, hours, days, weeks'',
      Additional_properties False]"

definition cron_schema :: schema where
  "cron_schema = Schema
     [Type [T_object],
      Properties
        [(''year'', Schema [Type [T_integer, T_string]]),
         (''month'', Schema [Type [T_integer, T_string]]),
         (''day'', Schema [Type [T_integer, T_string]]),
         (''week'', Schema [Type [T_integer, T_string]]),
         (''day_of_week'', Schema [Type [T_integer, T_string]]),
         (''hour'', Schema [Type [T_integer, T_string]]),
         (''minute'', Schema [Type [T_integer, T_string]])],
      Format ''cron_schedule'',
      Additional_properties False]"

text \<open>The \<^verbatim>\<open>oneOf\<close> of the items: exactly one of \<^verbatim>\<open>schedule\<close> and \<^verbatim>\<open>interval\<close>.\<close>

definition one_trigger :: keyword where
  "one_trigger = One_of [Schema [Required [''schedule'']], Schema [Required [''interval'']]]"

definition items_schema :: schema where
  "items_schema = Schema
     [Properties
        [(''tasks'', Schema [Type [T_array, T_string], Items (Schema [Type [T_string]])]),
         (''interval'', interval_schema),
         (''schedule'', cron_schema)],
      Required [''tasks''],
      one_trigger,
      Error_one_of ''Either `cron` or `interval` must be defined.'',
      Additional_properties False]"

definition main_schema :: schema where
  "main_schema = Schema
     [One_of
        [Schema [Type [T_array], Items items_schema],
         Schema [Type [T_boolean], Enum [JBool False]]]]"

section \<open>Observations on a state\<close>

text \<open>The job ids in the runtime, the calls made on it so far, and whether it runs.\<close>

definition jobs_of :: "state \<Rightarrow> job list" where
  "jobs_of st = (case scheduler st of None \<Rightarrow> [] | Some s \<Rightarrow> jobs s)"

definition job_ids :: "state \<Rightarrow> string list" where
  "job_ids st = (case scheduler st of None \<Rightarrow> [] | Some s \<Rightarrow> map ident (jobs s))"

definition calls_of :: "state \<Rightarrow> call list" where
  "calls_of st = (case scheduler st of None \<Rightarrow> [] | Some s \<Rightarrow> calls s)"

definition is_running :: "state \<Rightarrow> bool" where
  "is_running st = (case scheduler st of None \<Rightarrow> False | Some s \<Rightarrow> running s)"

section \<open>Example values\<close>

definition env_ok :: env where
  "env_ok = \<lparr>save_fails = False, fresh = 0, trigger_accepted = (\<lambda>t. True),
              first_run_time = (\<lambda>t. None)\<rparr>"

definition env_fail :: env where
  "env_fail = \<lparr>save_fails = True, fresh = 0, trigger_accepted = (\<lambda>t. True),
                first_run_time = (\<lambda>t. None)\<rparr>"

definition tv_every_2h :: dict where
  "tv_every_2h = [(''tasks'', JArr [JStr ''tv'']), (''interval'', JObj [(''hours'', JInt 2)])]"

definition tv_job :: "string \<Rightarrow> job" where
  "tv_job i = \<lparr>ident = i, name = ''tv'', args = [''tv''],
              trig = Interval [(''hours'', JInt 2)], next_run_time = Some 1000\<rparr>"

definition a_sched :: "bool \<Rightarrow> job list \<Rightarrow> sched" where
  "a_sched r js = \<lparr>running = r, timezone = ''UTC'', coalesce = True,
                   misfire_grace_time = 86400, jobs = js, calls = []\<rparr>"

definition a_state :: "schedules_value \<Rightarrow> sched option \<Rightarrow> state" where
  "a_state v s = \<lparr>is_daemon = True, schedules = v, heap = (\<lambda>r. tv_every_2h),
                  saved = Saved_absent, scheduler = s, log = []\<rparr>"

text \<open>Two schedule objects with the same content, at addresses 1 and 2, and an idle runtime.\<close>

definition twins :: state where
  "twins = a_state (Schedule_list [1, 2]) (Some (a_sched False []))"

text \<open>
  A restarted daemon: the content that was at address 1 before the restart is now at
  address 2, and the job store still holds the job registered for it.
\<close>

definition restarted :: state where
  "restarted = a_state (Schedule_list [2]) None"

text \<open>Scheduling switched off in the configuration while the runtime runs one job.\<close>

definition switched_off :: state where
  "switched_off = a_state Disabled (Some (a_sched True [tv_job ''7'']))"

text \<open>A running runtime whose only job is the one of the only configured schedule.\<close>

definition settled :: state where
  "settled = a_state (Schedule_list [7]) (Some (a_sched True [tv_job ''7'']))"

text \<open>
  Schedule dicts with both triggers and with none, and a daemon with an empty schedule list
  and an idle runtime.
\<close>

definition both_triggers :: dict where
  "both_triggers =
     [(''tasks'', JArr [JStr ''tv'']), (''interval'', JObj [(''hours'', JInt 2)]),
      (''schedule'', JObj [(''hour'', JInt 3)])]"

definition no_trigger :: dict where
  "no_trigger = [(''tasks'', JArr [JStr ''tv''])]"

definition idle :: state where
  "idle = a_state (Schedule_list []) (Some (a_sched False []))"

section \<open>Decimal numerals identify the number\<close>

lemma digit_inj: "a < 10 \<Longrightarrow> b < 10 \<Longrightarrow> digit a = digit b \<Longrightarrow> a = b"
proof -
  assume a: "a < 10" and b: "b < 10" and e: "digit a = digit b"
  have A: "a \<in> {0,1,2,3,4,5,6,7,8,9}" using a by auto
  have B: "b \<in> {0,1,2,3,4,5,6,7,8,9}" using b by auto
  show ?thesis using A B e by (auto simp: digit_def)
qed

lemma unicode_not_Nil: "unicode n \<noteq> []"
  by (subst unicode.simps) simp

lemma unicode_small: "n < 10 \<Longrightarrow> unicode n = [digit n]"
  by (subst unicode.simps) simp

lemma unicode_big: "\<not> n < 10 \<Longrightarrow> unicode n = unicode (n div 10) @ [digit (n mod 10)]"
  by (subst unicode.simps) simp

lemma unicode_inj: "unicode m = unicode n \<Longrightarrow> m = n"
proof (induction m arbitrary: n rule: unicode.induct)
  case (1 m)
  show ?case
  proof (cases "m < 10")
    case True
    show ?thesis
    proof (cases "n < 10")
      case True
      with \<open>m < 10\<close> "1.prems" show ?thesis
        by (simp add: unicode_small digit_inj)
    next
      case False
      with \<open>m < 10\<close> "1.prems" unicode_not_Nil [of "n div 10"] show ?thesis
        by (auto simp add: unicode_small unicode_big)
    qed
  next
    case False
    show ?thesis
    proof (cases "n < 10")
      case True
      with \<open>\<not> m < 10\<close> "1.prems" unicode_not_Nil [of "m div 10"] show ?thesis
        by (auto simp add: unicode_small unicode_big)
    next
      case nbig: False
      from False nbig "1.prems"
      have eq: "unicode (m div 10) = unicode (n div 10)"
        and d: "digit (m mod 10) = digit (n mod 10)"
        by (simp_all add: unicode_big)
      from "1.IH" [OF False eq] have q: "m div 10 = n div 10" .
      have r: "m mod 10 = n mod 10" using d by (intro digit_inj) simp_all
      from q r show ?thesis by (metis div_mult_mod_eq)
    qed
  qed
qed

section \<open>What the two loops of reconciliation do\<close>

lemma new_job_ident: "new_job e jid d = Returned j \<Longrightarrow> ident j = jid"
  by (auto simp: new_job_def Let_def split: option.splits json.splits if_splits)

lemma add_job_fields:
  assumes "add_job accepted j s = Returned s1"
  shows "jobs s1 = jobs s @ [j]"
    and "calls s1 = calls s @ [Add_job (ident j)]"
    and "running s1 = running s"
    and "timezone s1 = timezone s"
  using assms by (auto simp add: add_job_def split: if_splits)

lemma remove_job_fields:
  "jobs (remove_job i s) = filter (\<lambda>j. ident j \<noteq> i) (jobs s)"
  "calls (remove_job i s) = calls s @ [Remove_job i]"
  "running (remove_job i s) = running s"
  "timezone (remove_job i s) = timezone s"
  by (simp_all add: remove_job_def)

lemma add_configured_ids:
  "add_configured e h ex rs acc s = (Returned ids, s') \<Longrightarrow> ids = acc @ map (\<lambda>r. unicode (py_id r)) rs"
proof (induction rs arbitrary: acc s)
  case Nil
  then show ?case by simp
next
  case (Cons r rs)
  from Cons.prems show ?case
    by (auto simp: Let_def split: if_splits outcome.splits dest!: Cons.IH)
qed

lemma add_configured_sched:
  "add_configured e h ex rs acc s = (Returned ids, s') \<Longrightarrow>
     map ident (jobs s') = map ident (jobs s) @ filter (\<lambda>i. i \<notin> set ex) (map (\<lambda>r. unicode (py_id r)) rs)
     \<and> calls s' = calls s @ map Add_job (filter (\<lambda>i. i \<notin> set ex) (map (\<lambda>r. unicode (py_id r)) rs))
     \<and> running s' = running s \<and> timezone s' = timezone s"
proof (induction rs arbitrary: acc s)
  case Nil
  then show ?case by simp
next
  case (Cons r rs)
  show ?case
  proof (cases "unicode (py_id r) \<in> set ex")
    case True
    with Cons.prems have "add_configured e h ex rs (acc @ [unicode (py_id r)]) s = (Returned ids, s')"
      by (simp add: Let_def)
    from Cons.IH [OF this] True show ?thesis by simp
  next
    case False
    with Cons.prems obtain j s1 where j: "new_job e (unicode (py_id r)) (h r) = Returned j"
      and a: "add_job (trigger_accepted e) j s = Returned s1"
      and rest: "add_configured e h ex rs (acc @ [unicode (py_id r)]) s1 = (Returned ids, s')"
      by (auto simp: Let_def split: outcome.splits)
    from Cons.IH [OF rest] False new_job_ident [OF j] show ?thesis
      by (simp add: add_job_fields [OF a])
  qed
qed

lemma add_configured_nothing:
  "set (map (\<lambda>r. unicode (py_id r)) rs) \<subseteq> set ex \<Longrightarrow>
     add_configured e h ex rs acc s = (Returned (acc @ map (\<lambda>r. unicode (py_id r)) rs), s)"
  by (induction rs arbitrary: acc) (simp_all add: Let_def)

lemma remove_unconfigured_sched:
  "jobs (remove_unconfigured c ex s) = filter (\<lambda>j. \<not> (ident j \<in> set ex \<and> ident j \<notin> set c)) (jobs s)
   \<and> calls (remove_unconfigured c ex s) = calls s @ map Remove_job (filter (\<lambda>i. i \<notin> set c) ex)
   \<and> running (remove_unconfigured c ex s) = running s
   \<and> timezone (remove_unconfigured c ex s) = timezone s"
proof (induction ex arbitrary: s)
  case Nil
  then show ?case by simp
next
  case (Cons i ex)
  show ?case
    by (simp add: Cons.IH remove_job_fields) (auto intro: filter_cong)
qed

lemma remove_unconfigured_nothing:
  "set ex \<subseteq> set c \<Longrightarrow> remove_unconfigured c ex s = s"
  by (induction ex arbitrary: s) simp_all


lemma added_append: "added (xs @ ys) = added xs @ added ys"
  by (induction xs rule: added.induct) simp_all

lemma removed_append: "removed (xs @ ys) = removed xs @ removed ys"
  by (induction xs rule: removed.induct) simp_all

lemma added_map: "added (map Add_job is) = is" "added (map Remove_job is) = []"
  by (induction "is") simp_all

lemma removed_map: "removed (map Remove_job is) = is" "removed (map Add_job is) = []"
  by (induction "is") simp_all

lemma setup_jobs_list:
  assumes "is_daemon st" and "schedules st = Schedule_list rs" and "rs \<noteq> []"
    and "scheduler st = Some s"
  shows "setup_jobs e st =
     (case add_configured e (heap st) (map ident (jobs s)) rs [] s of
        (Raised x, s1) \<Rightarrow> (Raised x, st\<lparr>scheduler := Some s1\<rparr>)
      | (Returned c, s1) \<Rightarrow>
          (let s2 = remove_unconfigured c (map ident (jobs s)) s1
           in if \<not> running s2
              then (Returned (), (log_info ''Starting scheduler'' st)\<lparr>scheduler := Some (start s2)\<rparr>)
              else (Returned (), st\<lparr>scheduler := Some s2\<rparr>)))"
  using assms
  by (cases rs)
    (simp_all add: setup_jobs_def reconcile_def config_get_def get_jobs_def Let_def)

lemma setup_jobs_off:
  assumes "is_daemon st" and "schedules st = Disabled \<or> schedules st = Schedule_list []"
    and "scheduler st = Some s"
  shows "setup_jobs e st =
     (if running s
      then (Returned (), (log_info ''Shutting down scheduler'' st)\<lparr>scheduler := Some (shutdown s)\<rparr>)
      else (Returned (), st))"
  using assms
  by (auto simp add: setup_jobs_def switch_off_def config_get_def Let_def)

lemma setup_jobs_converges:
  assumes d: "is_daemon st" and l: "schedules st = Schedule_list rs" and n: "rs \<noteq> []"
    and s: "scheduler st = Some s" and r: "setup_jobs e st = (Returned (), st')"
  shows "set (job_ids st') = set (map (\<lambda>r. unicode (py_id r)) rs)"
    and "is_running st'"
    and "added (calls_of st') =
           added (calls s) @ filter (\<lambda>i. i \<notin> set (map ident (jobs s))) (map (\<lambda>r. unicode (py_id r)) rs)"
    and "removed (calls_of st') =
           removed (calls s) @ filter (\<lambda>i. i \<notin> set (map (\<lambda>r. unicode (py_id r)) rs)) (map ident (jobs s))"
proof -
  let ?ex = "map ident (jobs s)"
  let ?ids = "map (\<lambda>r. unicode (py_id r)) rs"
  obtain out s1 where a: "add_configured e (heap st) ?ex rs [] s = (out, s1)"
    by (cases "add_configured e (heap st) ?ex rs [] s")
  from r a have "\<exists>c. out = Returned c"
    by (cases out) (simp_all add: setup_jobs_list [OF d l n s])
  then obtain c where out: "out = Returned c" ..
  from add_configured_ids [OF a [unfolded out]] have c: "c = ?ids" by simp
  note s1 = add_configured_sched [OF a [unfolded out]]
  let ?s2 = "remove_unconfigured c ?ex s1"
  note s2 = remove_unconfigured_sched [of c ?ex s1]
  have st': "scheduler st' = Some (if \<not> running ?s2 then start ?s2 else ?s2)"
    using r a out by (auto simp add: setup_jobs_list [OF d l n s] Let_def log_info_def split: if_splits)
  have j: "map ident (jobs ?s2) = filter (\<lambda>i. \<not> (i \<in> set ?ex \<and> i \<notin> set c)) (map ident (jobs s1))"
    using s2 by (simp add: filter_map comp_def)
  have "set (map ident (jobs s1)) = set ?ex \<union> {i \<in> set ?ids. i \<notin> set ?ex}"
    using s1 by (simp only: set_append set_filter)
  moreover have "set (map ident (jobs ?s2)) =
      {i \<in> set (map ident (jobs s1)). \<not> (i \<in> set ?ex \<and> i \<notin> set c)}"
    by (simp only: j set_filter)
  ultimately have "set (map ident (jobs ?s2)) = set ?ids"
    unfolding c by blast
  moreover have "job_ids st' = map ident (jobs ?s2)"
    using st' by (simp add: job_ids_def start_def)
  ultimately show "set (job_ids st') = set ?ids"
    by simp
  show "is_running st'"
    using st' by (simp add: is_running_def start_def)
  show "added (calls_of st') = added (calls s) @ filter (\<lambda>i. i \<notin> set ?ex) ?ids"
    using st' s1 s2 by (simp add: calls_of_def start_def added_append added_map)
  show "removed (calls_of st') = removed (calls s) @ filter (\<lambda>i. i \<notin> set ?ids) ?ex"
    using st' s1 s2 c by (simp add: calls_of_def start_def removed_append removed_map)
qed

section \<open>The shape of a reconciliation\<close>

text \<open>
  With a scheduler object in place, \<^verbatim>\<open>setup_jobs\<close> returns or raises, keeps the scheduler
  object and its timezone, and only appends to the log; what it does is the same whatever
  the log held before.
\<close>

lemma add_configured_running:
  "add_configured e h ex rs acc s = (out, s') \<Longrightarrow> timezone s' = timezone s \<and> running s' = running s"
proof (induction rs arbitrary: acc s)
  case Nil
  then show ?case by simp
next
  case (Cons r rs)
  from Cons.prems show ?case
    by (auto simp: Let_def split: if_splits outcome.splits
        dest!: Cons.IH dest: add_job_fields(3,4))
qed

lemma switch_off_shape:
  assumes s: "scheduler st = Some s"
  shows "\<exists>out s' msgs. timezone s' = timezone s \<and>
     (\<forall>l. switch_off (st\<lparr>log := l\<rparr>) = (out, st\<lparr>log := l @ msgs, scheduler := Some s'\<rparr>))"
proof (cases "running s")
  case True
  with s show ?thesis
    by (intro exI [of _ "Returned ()"] exI [of _ "shutdown s"]
          exI [of _ "[(INFO, ''Shutting down scheduler'')]"])
       (simp add: switch_off_def log_info_def shutdown_def)
next
  case False
  with s show ?thesis
    by (intro exI [of _ "Returned ()"] exI [of _ s] exI [of _ "[]"])
       (auto simp add: switch_off_def)
qed

lemma reconcile_shape:
  assumes s: "scheduler st = Some s"
  shows "\<exists>out s' msgs. timezone s' = timezone s \<and>
     (\<forall>l. reconcile e h rs (st\<lparr>log := l\<rparr>) = (out, st\<lparr>log := l @ msgs, scheduler := Some s'\<rparr>))"
proof -
  obtain out s1 where a: "add_configured e h (map ident (jobs s)) rs [] s = (out, s1)"
    by (cases "add_configured e h (map ident (jobs s)) rs [] s")
  show ?thesis
  proof (cases out)
    case (Raised x)
    from add_configured_running [OF a] have "timezone s1 = timezone s" by simp
    then show ?thesis
      by (intro exI [of _ "Raised x"] exI [of _ s1] exI [of _ "[]"])
         (simp add: reconcile_def get_jobs_def s a Raised)
  next
    case (Returned c)
    let ?s2 = "remove_unconfigured c (map ident (jobs s)) s1"
    from add_configured_running [OF a] remove_unconfigured_sched [of c "map ident (jobs s)" s1]
    have t: "timezone ?s2 = timezone s" by simp
    show ?thesis
    proof (cases "running ?s2")
      case True
      with t show ?thesis
        by (intro exI [of _ "Returned ()"] exI [of _ ?s2] exI [of _ "[]"])
           (simp add: reconcile_def get_jobs_def s a Returned Let_def)
    next
      case False
      with t show ?thesis
        by (intro exI [of _ "Returned ()"] exI [of _ "start ?s2"]
              exI [of _ "[(INFO, ''Starting scheduler'')]"])
           (simp add: reconcile_def get_jobs_def s a Returned log_info_def start_def Let_def)
    qed
  qed
qed

lemma setup_jobs_shape:
  assumes d: "is_daemon st" and s: "scheduler st = Some s"
  shows "\<exists>out s' msgs. timezone s' = timezone s \<and>
     (\<forall>l. setup_jobs e (st\<lparr>log := l\<rparr>) = (out, st\<lparr>log := l @ msgs, scheduler := Some s'\<rparr>))"
proof (cases "schedules st")
  case Disabled
  with d switch_off_shape [OF s] show ?thesis
    by (simp add: setup_jobs_def config_get_def)
next
  case Absent
  let ?m = "(INFO, ''No schedules defined in config. Defaulting to run all tasks on a 1 hour interval.'')"
  from reconcile_shape [OF s, of e "(heap st)(fresh e := default_schedule)" "[fresh e]"]
  obtain out s' msgs where t: "timezone s' = timezone s"
    and r: "\<And>l. reconcile e ((heap st)(fresh e := default_schedule)) [fresh e] (st\<lparr>log := l\<rparr>) =
               (out, st\<lparr>log := l @ msgs, scheduler := Some s'\<rparr>)"
    by blast
  have "setup_jobs e (st\<lparr>log := l\<rparr>) = (out, st\<lparr>log := l @ ?m # msgs, scheduler := Some s'\<rparr>)" for l
    using r [of "l @ [?m]"] d Absent
    by (simp add: setup_jobs_def config_get_def log_info_def)
  with t show ?thesis by blast
next
  case (Schedule_list rs)
  show ?thesis
  proof (cases rs)
    case Nil
    with d Schedule_list switch_off_shape [OF s] show ?thesis
      by (simp add: setup_jobs_def config_get_def)
  next
    case (Cons r' rs')
    with d Schedule_list reconcile_shape [OF s, of e "heap st" rs] show ?thesis
      by (simp add: setup_jobs_def config_get_def)
  qed
qed

lemma switch_off_keeps_config:
  "switch_off st = (out, st') \<Longrightarrow>
     schedules st' = schedules st \<and> heap st' = heap st \<and> saved st' = saved st"
  by (auto simp: switch_off_def log_info_def split: option.splits if_splits)

lemma reconcile_keeps_config:
  "reconcile e h rs st = (out, st') \<Longrightarrow>
     schedules st' = schedules st \<and> heap st' = heap st \<and> saved st' = saved st"
  by (auto simp: reconcile_def Let_def log_info_def
      split: option.splits prod.splits outcome.splits if_splits)

lemma setup_jobs_keeps_config:
  assumes "setup_jobs e st = (out, st')"
  shows "schedules st' = schedules st \<and> heap st' = heap st \<and> saved st' = saved st"
proof (cases "is_daemon st")
  case False
  with assms show ?thesis by (simp add: setup_jobs_def)
next
  case True
  show ?thesis
  proof (cases "schedules st")
    case Absent
    with True assms
    have "reconcile e ((heap st)(fresh e := default_schedule)) [fresh e]
            (log_info ''No schedules defined in config. Defaulting to run all tasks on a 1 hour interval.'' st) = (out, st')"
      by (simp add: setup_jobs_def config_get_def log_info_def)
    from reconcile_keeps_config [OF this] show ?thesis by (simp add: log_info_def)
  next
    case Disabled
    with True assms have "switch_off st = (out, st')"
      by (simp add: setup_jobs_def config_get_def)
    from switch_off_keeps_config [OF this] show ?thesis .
  next
    case (Schedule_list rs)
    show ?thesis
    proof (cases rs)
      case Nil
      with Schedule_list True assms have "switch_off st = (out, st')"
        by (simp add: setup_jobs_def config_get_def)
      from switch_off_keeps_config [OF this] show ?thesis .
    next
      case (Cons r rs')
      with Schedule_list True assms have "reconcile e (heap st) rs st = (out, st')"
        by (simp add: setup_jobs_def config_get_def)
      from reconcile_keeps_config [OF this] show ?thesis .
    qed
  qed
qed

section \<open>Timezone resolution\<close>

lemma resolve_timezone_fallback:
  assumes "lz = Zone ''local'' \<or> lz = Unknown_time_zone_error \<or> lz = Struct_error m"
  shows "resolve_timezone lz st =
     (''UTC'', st\<lparr>log := log st
                    @ (case lz of Struct_error m \<Rightarrow> [(WARNING, ''Hiding exception from tzlocal: '' @ m)]
                       | _ \<Rightarrow> [])
                    @ [(INFO, utc_message)]\<rparr>)"
  using assms by (auto simp add: resolve_timezone_def log_info_def log_warning_def)

lemma resolve_timezone_utc: "resolve_timezone (Zone ''UTC'') st = (''UTC'', st)"
  by (simp add: resolve_timezone_def)

section \<open>The handlers up to the persistence step\<close>

lemma dict_set_not_Nil: "dict_set k v d \<noteq> []"
  by (cases d) simp_all

lemma index_by_id_Some:
  "index_by_id sid rs = Some i \<Longrightarrow>
     i < length rs \<and> py_id (rs ! i) = sid \<and> find (\<lambda>r. py_id r = sid) rs = Some (rs ! i)"
proof (induction rs arbitrary: i)
  case Nil
  then show ?case by simp
next
  case (Cons r rs)
  then show ?case by (auto split: if_splits)
qed

lemma index_by_id_None_iff: "index_by_id sid rs = None \<longleftrightarrow> sid \<notin> set (map py_id rs)"
  by (induction rs) auto

lemma save_and_signal_fails:
  "save_fails e \<Longrightarrow> save_and_signal e resp st = (Raised PersistenceError, st)"
  by (simp add: save_and_signal_def save_config_def)

lemma schedules_POST_reaches_save:
  "schedules_POST e r d st =
     save_and_signal e (jsonify [(''schedule'', JObj (dict_set ''id'' (JInt (int (py_id r))) d))] 200)
       (st\<lparr>heap := (heap st)(r := d), schedules := Schedule_list (enable (schedules st) @ [r])\<rparr>)"
proof -
  let ?cur = "enable (schedules st)"
  have f: "find (\<lambda>x. py_id x = py_id r) (?cur @ [r]) \<noteq> None"
    by (auto simp add: find_None_iff)
  then obtain x where x: "find (\<lambda>x. py_id x = py_id r) (?cur @ [r]) = Some x" by blast
  then have "py_id x = py_id r" by (auto simp: find_Some_iff)
  then have xr: "x = r" by (simp add: py_id_def)
  obtain p ps where ne: "dict_set ''id'' (JInt (int (py_id r))) d = p # ps"
    using dict_set_not_Nil [of "''id''" "JInt (int (py_id r))" d]
    by (cases "dict_set ''id'' (JInt (int (py_id r))) d") auto
  show ?thesis
    using x xr ne by (simp add: schedules_POST_def schedule_by_id_def Let_def)
qed

lemma update_schedule_reaches_save:
  assumes l: "schedules st = Schedule_list rs" and i: "index_by_id sid rs = Some i"
  shows "update_schedule e m sid d st =
     save_and_signal e
       (jsonify [(''schedule'',
          JObj (dict_set ''id'' (JInt (int sid))
                 (dict_update (if m = POST then [] else heap st (rs ! i)) (dict_del ''id'' d))))] 200)
       (st\<lparr>heap := (heap st)(rs ! i := dict_update (if m = POST then [] else heap st (rs ! i))
                                        (dict_del ''id'' d))\<rparr>)"
proof -
  let ?new = "dict_update (if m = POST then [] else heap st (rs ! i)) (dict_del ''id'' d)"
  from index_by_id_Some [OF i]
  have f: "find (\<lambda>r. py_id r = sid) rs = Some (rs ! i)" by simp
  obtain p ps where ne: "dict_set ''id'' (JInt (int sid)) ?new = p # ps"
    using dict_set_not_Nil [of "''id''" "JInt (int sid)" ?new]
    by (cases "dict_set ''id'' (JInt (int sid)) ?new") auto
  show ?thesis
    using l i f ne by (simp add: update_schedule_def schedule_by_id_def Let_def)
qed

lemma delete_schedule_reaches_save:
  assumes l: "schedules st = Schedule_list rs" and i: "index_by_id sid rs = Some i"
  shows "delete_schedule e sid st =
     save_and_signal e (jsonify [(''detail'', JStr ''deleted schedule'')] 400)
       (st\<lparr>schedules := Schedule_list (take i rs @ drop (Suc i) rs)\<rparr>)"
  using l i by (simp add: delete_schedule_def)

section \<open>The trigger check of the schema\<close>

lemmas schema_defs = main_schema_def items_schema_def one_trigger_def interval_schema_def
  cron_schema_def UNITS_def is_cron_schedule_def has_key_def

lemma required_valid [simp]:
  "valid cron (Schema [Required [k]]) (JObj d) = has_key d k"
  by simp

lemma one_trigger_iff:
  "valid_keyword cron names one_trigger (JObj d) \<longleftrightarrow>
     (has_key d ''schedule'' \<noteq> has_key d ''interval'')"
  by (auto simp add: one_trigger_def)

lemma items_schema_needs_one_trigger:
  "valid cron items_schema (JObj d) \<Longrightarrow> has_key d ''schedule'' \<noteq> has_key d ''interval''"
  using one_trigger_iff [of cron _ d]
  by (simp add: items_schema_def)

lemma main_schema_array:
  "valid cron main_schema (JArr xs) \<longleftrightarrow> list_all (valid cron items_schema) xs"
  by (simp add: main_schema_def)

section \<open>Unfolding for concrete runs\<close>

lemmas example_defs = env_ok_def env_fail_def tv_every_2h_def tv_job_def a_sched_def a_state_def

lemmas setup_jobs_defs =
  setup_jobs_def switch_off_def reconcile_def config_get_def get_jobs_def new_job_def
  has_key_def add_job_def
  remove_job_def start_def shutdown_def log_info_def log_warning_def py_id_def unicode.simps
  digit_def jobs_of_def job_ids_def calls_of_def is_running_def Let_def

lemmas handler_defs =
  schedules_POST_def schedules_GET_def get_schedule_def update_schedule_def delete_schedule_def
  schedule_by_id_def save_and_signal_def save_config_def config_changed_def snapshot_def
  enable_def jsonify_def dict_del_def dict_update_def get_job_def time_json_def

section \<open>C1: the identity the reconciler uses\<close>

text \<open>
  C1: the identity by which the reconciler correlates a schedule config with a persisted
  job is to be the content hash \<^verbatim>\<open>job_id\<close>, equal for configs of equal content, in one run
  and across restarts. \<^verbatim>\<open>setup_jobs\<close> never calls \<^verbatim>\<open>job_id\<close>; it takes
  \<^verbatim>\<open>unicode(id(job_config))\<close>. Two schedule objects of identical content, which have one
  content hash whatever the digest, get the ids \<open>''1''\<close> and \<open>''2''\<close>. And at a restart the
  job store still holds the job \<open>''1''\<close> with its pending \<^verbatim>\<open>next_run_time\<close>, kept there to
  be made up when the daemon continues; the unchanged content now lives at address 2, so
  reconciliation removes the stored job and registers a new job \<open>''2''\<close> without that run
  time.
\<close>

theorem reconciler_identity_not_content_hash:
  "heap twins 1 = heap twins 2
   \<and> job_id sha1 dumps (heap twins 1) = job_id sha1 dumps (heap twins 2)
   \<and> job_ids (snd (setup_jobs env_ok twins)) = [''1'', ''2'']
   \<and> heap restarted 2 = tv_every_2h
   \<and> next_run_time (tv_job ''1'') = Some 1000
   \<and> fst (setup_scheduler env_ok (Zone ''UTC'') [tv_job ''1''] restarted) = Returned ()
   \<and> removed (calls_of (snd (setup_scheduler env_ok (Zone ''UTC'') [tv_job ''1''] restarted))) = [''1'']
   \<and> added (calls_of (snd (setup_scheduler env_ok (Zone ''UTC'') [tv_job ''1''] restarted))) = [''2'']
   \<and> jobs_of (snd (setup_scheduler env_ok (Zone ''UTC'') [tv_job ''1''] restarted)) =
       [\<lparr>ident = ''2'', name = ''tv'', args = [''tv''],
         trig = Interval [(''hours'', JInt 2)], next_run_time = None\<rparr>]"
proof (intro conjI)
  show "heap twins 1 = heap twins 2"
    by (simp add: twins_def a_state_def)
  then show "job_id sha1 dumps (heap twins 1) = job_id sha1 dumps (heap twins 2)"
    by simp
  show "job_ids (snd (setup_jobs env_ok twins)) = [''1'', ''2'']"
    by (simp add: twins_def example_defs setup_jobs_defs)
  show "heap restarted 2 = tv_every_2h"
    by (simp add: restarted_def a_state_def)
  show "next_run_time (tv_job ''1'') = Some 1000"
    by (simp add: tv_job_def)
  show "fst (setup_scheduler env_ok (Zone ''UTC'') [tv_job ''1''] restarted) = Returned ()"
    by (simp add: restarted_def setup_scheduler_def resolve_timezone_def example_defs setup_jobs_defs)
  show "removed (calls_of (snd (setup_scheduler env_ok (Zone ''UTC'') [tv_job ''1''] restarted))) = [''1'']"
    by (simp add: restarted_def setup_scheduler_def resolve_timezone_def example_defs setup_jobs_defs)
  show "added (calls_of (snd (setup_scheduler env_ok (Zone ''UTC'') [tv_job ''1''] restarted))) = [''2'']"
    by (simp add: restarted_def setup_scheduler_def resolve_timezone_def example_defs setup_jobs_defs)
  show "jobs_of (snd (setup_scheduler env_ok (Zone ''UTC'') [tv_job ''1''] restarted)) =
       [\<lparr>ident = ''2'', name = ''tv'', args = [''tv''],
         trig = Interval [(''hours'', JInt 2)], next_run_time = None\<rparr>]"
    by (simp add: restarted_def setup_scheduler_def resolve_timezone_def example_defs setup_jobs_defs)
qed

section \<open>C2: scheduling switched off\<close>

text \<open>
  C2, as stated, fails: with \<^verbatim>\<open>schedules: no\<close> the call ends in the \<^verbatim>\<open>if not config:\<close>
  branch, before the loop that removes jobs. The runtime held the job \<open>''7''\<close>; no
  \<^verbatim>\<open>remove_job\<close> is called and the job is still there afterwards.
\<close>

theorem disabled_schedules_counterexample:
  "job_ids switched_off = [''7'']
   \<and> calls_of switched_off = []
   \<and> removed (calls_of (snd (setup_jobs env_ok switched_off))) = []
   \<and> job_ids (snd (setup_jobs env_ok switched_off)) = [''7'']"
  by (simp add: switched_off_def example_defs setup_jobs_defs)

text \<open>
  C2, amended: when the desired schedule list is the disabled sentinel \<^verbatim>\<open>False\<close> and the
  runtime is running, reconciliation returns, registers no job and deregisters none (the
  observed jobs stay as they are), its only call on the runtime is \<^verbatim>\<open>shutdown\<close>, and the
  runtime is stopped afterwards.
\<close>

theorem disabled_schedules_stop_runtime:
  assumes "is_daemon st" and "schedules st = Disabled" and "scheduler st = Some s"
    and "running s"
  shows "\<exists>st'. setup_jobs e st = (Returned (), st') \<and> \<not> is_running st'
           \<and> jobs_of st' = jobs_of st \<and> calls_of st' = calls_of st @ [Shutdown]"
  using assms
  by (simp add: setup_jobs_off [of st s e] is_running_def jobs_of_def calls_of_def
        shutdown_def log_info_def)

theorem disabled_schedules_stop_runtime_witness:
  "is_daemon switched_off \<and> schedules switched_off = Disabled
   \<and> scheduler switched_off = Some (a_sched True [tv_job ''7'']) \<and> running (a_sched True [tv_job ''7''])
   \<and> fst (setup_jobs env_ok switched_off) = Returned ()
   \<and> \<not> is_running (snd (setup_jobs env_ok switched_off))
   \<and> jobs_of (snd (setup_jobs env_ok switched_off)) = [tv_job ''7'']
   \<and> calls_of (snd (setup_jobs env_ok switched_off)) = [Shutdown]"
proof -
  have d: "is_daemon switched_off" and l: "schedules switched_off = Disabled"
    and s: "scheduler switched_off = Some (a_sched True [tv_job ''7''])"
    and r: "running (a_sched True [tv_job ''7''])"
    by (simp_all add: switched_off_def a_state_def a_sched_def)
  have j: "jobs_of switched_off = [tv_job ''7'']" and c: "calls_of switched_off = []"
    by (simp_all add: switched_off_def a_state_def a_sched_def jobs_of_def calls_of_def)
  from disabled_schedules_stop_runtime [OF d l s r, of env_ok] j c d l s r
  show ?thesis by auto
qed

section \<open>C3: reconciliation is idempotent\<close>

text \<open>
  C3: for every desired config list and every observed job set whose ids are exactly the
  identities of the desired configs, \<^verbatim>\<open>setup_jobs\<close> returns, the calls it makes register
  no job and deregister none, and the job records, their \<^verbatim>\<open>next_run_time\<close> included, are
  what they were.
\<close>

theorem reconcile_idempotent:
  assumes l: "schedules st = Schedule_list rs" and s: "scheduler st = Some s"
    and m: "set (map ident (jobs s)) = set (map (\<lambda>r. unicode (py_id r)) rs)"
  shows "\<exists>st' cs. setup_jobs e st = (Returned (), st') \<and> jobs_of st' = jobs_of st
           \<and> calls_of st' = calls_of st @ cs \<and> added cs = [] \<and> removed cs = []"
proof (cases "is_daemon st")
  case False
  then have "setup_jobs e st = (Returned (), st)" by (simp add: setup_jobs_def)
  then show ?thesis by simp
next
  case d: True
  show ?thesis
  proof (cases "rs = []")
    case True
    with l have "schedules st = Disabled \<or> schedules st = Schedule_list []" by simp
    from setup_jobs_off [OF d this s, of e] s show ?thesis
      by (cases "running s")
        (simp_all add: jobs_of_def calls_of_def shutdown_def log_info_def)
  next
    case n: False
    let ?ex = "map ident (jobs s)"
    let ?ids = "map (\<lambda>r. unicode (py_id r)) rs"
    from m have a: "add_configured e (heap st) ?ex rs [] s = (Returned ([] @ ?ids), s)"
      by (intro add_configured_nothing) simp
    from m have b: "remove_unconfigured ?ids ?ex s = s"
      by (intro remove_unconfigured_nothing) simp
    from setup_jobs_list [OF d l n s, of e] a b s show ?thesis
      by (cases "running s")
        (simp_all add: jobs_of_def calls_of_def start_def log_info_def)
  qed
qed

theorem reconcile_idempotent_witness:
  "schedules settled = Schedule_list [7]
   \<and> set (job_ids settled) = set (map (\<lambda>r. unicode (py_id r)) [7])
   \<and> fst (setup_jobs env_ok settled) = Returned ()
   \<and> jobs_of (snd (setup_jobs env_ok settled)) = [tv_job ''7'']
   \<and> added (calls_of (snd (setup_jobs env_ok settled))) = []
   \<and> removed (calls_of (snd (setup_jobs env_ok settled))) = []"
proof -
  have l: "schedules settled = Schedule_list [7]"
    and s: "scheduler settled = Some (a_sched True [tv_job ''7''])"
    by (simp_all add: settled_def a_state_def)
  have m: "set (map ident (jobs (a_sched True [tv_job ''7'']))) = set (map (\<lambda>r. unicode (py_id r)) [7])"
    by (simp add: a_sched_def tv_job_def py_id_def unicode.simps digit_def)
  have j: "jobs_of settled = [tv_job ''7'']" and c: "calls_of settled = []"
    and i: "job_ids settled = map ident (jobs (a_sched True [tv_job ''7'']))"
    by (simp_all add: settled_def a_state_def a_sched_def jobs_of_def calls_of_def job_ids_def)
  from reconcile_idempotent [OF l s m, of env_ok] j c l m i
  show ?thesis by auto
qed

section \<open>C4: a failing persistence step\<close>

text \<open>
  C4, as stated, fails: no handler restores anything. With a failing \<^verbatim>\<open>save_config()\<close>,
  Create leaves the new schedule in the list and Delete leaves the entry deleted, while the
  exception goes to the caller.
\<close>

theorem rollback_counterexample:
  "schedules settled = Schedule_list [7]
   \<and> fst (schedules_POST env_fail 9 tv_every_2h settled) = Raised PersistenceError
   \<and> schedules (snd (schedules_POST env_fail 9 tv_every_2h settled)) = Schedule_list [7, 9]
   \<and> fst (delete_schedule env_fail 7 settled) = Raised PersistenceError
   \<and> schedules (snd (delete_schedule env_fail 7 settled)) = Schedule_list []"
  by (simp add: settled_def example_defs handler_defs py_id_def)

text \<open>
  C4, amended: for every mutating operation (Create, Replace/Update, Delete) on the schedule
  list, if the persistence step fails then its exception is raised to the caller and the
  in-memory mutation stays: Create has appended the new schedule, Replace/Update has
  rewritten the addressed schedule, Delete has removed it. Nothing is rolled back, nothing
  has been written, and no reconciliation has run.
\<close>

theorem persistence_failure_keeps_mutation:
  assumes f: "save_fails e"
  shows "(\<exists>st'. schedules_POST e r d st = (Raised PersistenceError, st')
            \<and> schedules st' = Schedule_list (enable (schedules st) @ [r])
            \<and> schedules st' \<noteq> schedules st \<and> heap st' r = d
            \<and> saved st' = saved st \<and> scheduler st' = scheduler st)
     \<and> (schedules st = Schedule_list rs \<longrightarrow> index_by_id sid rs = Some i \<longrightarrow>
          (\<exists>st'. update_schedule e m sid d st = (Raised PersistenceError, st')
             \<and> heap st' (rs ! i) =
                 dict_update (if m = POST then [] else heap st (rs ! i)) (dict_del ''id'' d)
             \<and> schedules st' = schedules st
             \<and> saved st' = saved st \<and> scheduler st' = scheduler st))
     \<and> (schedules st = Schedule_list rs \<longrightarrow> index_by_id sid rs = Some i \<longrightarrow>
          (\<exists>st'. delete_schedule e sid st = (Raised PersistenceError, st')
             \<and> schedules st' = Schedule_list (take i rs @ drop (Suc i) rs)
             \<and> schedules st' \<noteq> schedules st
             \<and> saved st' = saved st \<and> scheduler st' = scheduler st))"
proof (intro conjI impI)
  have "Schedule_list (enable (schedules st) @ [r]) \<noteq> schedules st"
    by (cases "schedules st") (simp_all add: enable_def)
  then show "\<exists>st'. schedules_POST e r d st = (Raised PersistenceError, st')
            \<and> schedules st' = Schedule_list (enable (schedules st) @ [r])
            \<and> schedules st' \<noteq> schedules st \<and> heap st' r = d
            \<and> saved st' = saved st \<and> scheduler st' = scheduler st"
    by (simp add: schedules_POST_reaches_save save_and_signal_fails [OF f])
next
  assume l: "schedules st = Schedule_list rs" and i: "index_by_id sid rs = Some i"
  show "\<exists>st'. update_schedule e m sid d st = (Raised PersistenceError, st')
             \<and> heap st' (rs ! i) =
                 dict_update (if m = POST then [] else heap st (rs ! i)) (dict_del ''id'' d)
             \<and> schedules st' = schedules st
             \<and> saved st' = saved st \<and> scheduler st' = scheduler st"
    by (simp add: update_schedule_reaches_save [OF l i] save_and_signal_fails [OF f])
next
  assume l: "schedules st = Schedule_list rs" and i: "index_by_id sid rs = Some i"
  from index_by_id_Some [OF i] have "i < length rs" by simp
  then have "length (take i rs @ drop (Suc i) rs) \<noteq> length rs" by simp
  then have "take i rs @ drop (Suc i) rs \<noteq> rs" by metis
  with l show "\<exists>st'. delete_schedule e sid st = (Raised PersistenceError, st')
             \<and> schedules st' = Schedule_list (take i rs @ drop (Suc i) rs)
             \<and> schedules st' \<noteq> schedules st
             \<and> saved st' = saved st \<and> scheduler st' = scheduler st"
    by (simp add: delete_schedule_reaches_save [OF l i] save_and_signal_fails [OF f])
qed

theorem persistence_failure_keeps_mutation_witness:
  "save_fails env_fail \<and> schedules settled = Schedule_list [7] \<and> index_by_id 7 [7] = Some 0
   \<and> fst (schedules_POST env_fail 9 tv_every_2h settled) = Raised PersistenceError
   \<and> schedules (snd (schedules_POST env_fail 9 tv_every_2h settled)) = Schedule_list [7, 9]
   \<and> fst (update_schedule env_fail PATCH 7 [(''tasks'', JStr ''films'')] settled) =
       Raised PersistenceError
   \<and> heap (snd (update_schedule env_fail PATCH 7 [(''tasks'', JStr ''films'')] settled)) 7 =
       [(''tasks'', JStr ''films''), (''interval'', JObj [(''hours'', JInt 2)])]
   \<and> fst (delete_schedule env_fail 7 settled) = Raised PersistenceError
   \<and> schedules (snd (delete_schedule env_fail 7 settled)) = Schedule_list []"
proof -
  have f: "save_fails env_fail" by (simp add: env_fail_def)
  have l: "schedules settled = Schedule_list [7]" by (simp add: settled_def a_state_def)
  have i: "index_by_id 7 [7] = Some 0" by (simp add: py_id_def)
  have h: "heap settled ([7] ! 0) = tv_every_2h" by (simp add: settled_def a_state_def)
  have u: "dict_update tv_every_2h (dict_del ''id'' [(''tasks'', JStr ''films'')]) =
      [(''tasks'', JStr ''films''), (''interval'', JObj [(''hours'', JInt 2)])]"
    by (simp add: tv_every_2h_def dict_update_def dict_del_def)
  note t = persistence_failure_keeps_mutation [OF f,
      where r = 9 and d = tv_every_2h and st = settled and rs = "[7]" and sid = 7 and i = 0]
  note t' = persistence_failure_keeps_mutation [OF f,
      where d = "[(''tasks'', JStr ''films'')]" and st = settled and rs = "[7]" and sid = 7
        and i = 0 and m = PATCH]
  from t l i obtain a c where
    a: "schedules_POST env_fail 9 tv_every_2h settled = (Raised PersistenceError, a)"
      "schedules a = Schedule_list (enable (schedules settled) @ [9])"
    and c: "delete_schedule env_fail 7 settled = (Raised PersistenceError, c)"
      "schedules c = Schedule_list (take 0 [7] @ drop (Suc 0) [7])"
    by blast
  from t' l i obtain b where
    b: "update_schedule env_fail PATCH 7 [(''tasks'', JStr ''films'')] settled =
          (Raised PersistenceError, b)"
      "heap b ([7] ! 0) = dict_update (if PATCH = POST then [] else heap settled ([7] ! 0))
                             (dict_del ''id'' [(''tasks'', JStr ''films'')])"
    by blast
  show ?thesis
    using a b c f l i h u by (simp add: enable_def)
qed

section \<open>C5: Create and the schema\<close>

text \<open>
  C5: Create is to validate the config against the schema before any mutation and to
  reject an invalid one with nothing mutated. The handler does not: its validation is still
  the comment \<^verbatim>\<open>TODO: Validate schema\<close>. A config with both triggers is rejected by the
  schema, yet \<^verbatim>\<open>POST /schedules/\<close> appends it, writes it to the configuration, registers a
  job for it and answers 200.
\<close>

theorem create_skips_validation:
  "\<not> valid (\<lambda>d. True) main_schema (JArr [JObj both_triggers])
   \<and> fst (schedules_POST env_ok 9 both_triggers idle) =
       Returned (jsonify [(''schedule'', JObj (both_triggers @ [(''id'', JInt 9)]))] 200)
   \<and> schedules (snd (schedules_POST env_ok 9 both_triggers idle)) = Schedule_list [9]
   \<and> heap (snd (schedules_POST env_ok 9 both_triggers idle)) 9 = both_triggers
   \<and> saved (snd (schedules_POST env_ok 9 both_triggers idle)) = Saved_list [both_triggers]
   \<and> job_ids (snd (schedules_POST env_ok 9 both_triggers idle)) = [''9'']"
proof (intro conjI)
  show "\<not> valid (\<lambda>d. True) main_schema (JArr [JObj both_triggers])"
    by (simp add: schema_defs both_triggers_def)
  show "fst (schedules_POST env_ok 9 both_triggers idle) =
       Returned (jsonify [(''schedule'', JObj (both_triggers @ [(''id'', JInt 9)]))] 200)"
    by (simp add: idle_def both_triggers_def example_defs handler_defs setup_jobs_defs)
  show "schedules (snd (schedules_POST env_ok 9 both_triggers idle)) = Schedule_list [9]"
    by (simp add: idle_def both_triggers_def example_defs handler_defs setup_jobs_defs)
  show "heap (snd (schedules_POST env_ok 9 both_triggers idle)) 9 = both_triggers"
    by (simp add: idle_def both_triggers_def example_defs handler_defs setup_jobs_defs)
  show "saved (snd (schedules_POST env_ok 9 both_triggers idle)) = Saved_list [both_triggers]"
    by (simp add: idle_def both_triggers_def example_defs handler_defs setup_jobs_defs)
  show "job_ids (snd (schedules_POST env_ok 9 both_triggers idle)) = [''9'']"
    by (simp add: idle_def both_triggers_def example_defs handler_defs setup_jobs_defs)
qed

section \<open>C6: the listing and next_run_time\<close>

text \<open>
  C6: List is to return every schedule config with its id and, where a matching live job
  exists, with that job's \<^verbatim>\<open>next_run_time\<close>. \<^verbatim>\<open>GET /schedules/\<close> does the first half only:
  the runtime holds the live job \<open>''7''\<close> of the listed schedule, with a \<^verbatim>\<open>next_run_time\<close>;
  the listing carries the id alone, while \<^verbatim>\<open>GET /schedules/7/\<close> of the same state carries
  the \<^verbatim>\<open>next_run_time\<close> too.
\<close>

theorem list_omits_next_run_time:
  "get_job (unicode 7) (a_sched True [tv_job ''7'']) = Some (tv_job ''7'')
   \<and> next_run_time (tv_job ''7'') = Some 1000
   \<and> schedules_GET settled =
       jsonify [(''schedules'', JArr [JObj (tv_every_2h @ [(''id'', JInt 7)])])] 200
   \<and> get_schedule 7 settled =
       Returned (jsonify [(''schedule'',
         JObj (tv_every_2h @ [(''id'', JInt 7), (''next_run_time'', JInt 1000)]))] 200)"
proof (intro conjI)
  show "get_job (unicode 7) (a_sched True [tv_job ''7'']) = Some (tv_job ''7'')"
    by (simp add: get_job_def a_sched_def tv_job_def unicode.simps digit_def)
  show "next_run_time (tv_job ''7'') = Some 1000"
    by (simp add: tv_job_def)
  show "schedules_GET settled =
       jsonify [(''schedules'', JArr [JObj (tv_every_2h @ [(''id'', JInt 7)])])] 200"
    by (simp add: settled_def example_defs handler_defs py_id_def)
  show "get_schedule 7 settled =
       Returned (jsonify [(''schedule'',
         JObj (tv_every_2h @ [(''id'', JInt 7), (''next_run_time'', JInt 1000)]))] 200)"
    by (simp add: settled_def example_defs handler_defs py_id_def unicode.simps digit_def)
qed

section \<open>C7: exactly one trigger\<close>

text \<open>
  C7: a schedule config in which both \<^verbatim>\<open>interval\<close> and \<^verbatim>\<open>schedule\<close> are present is rejected
  by the schema, as an item and in any \<^verbatim>\<open>schedules\<close> list that holds it; so is a config in
  which neither is present; and a config with exactly one of the two passes the \<^verbatim>\<open>oneOf\<close>
  check of the items.
\<close>

theorem exactly_one_trigger:
  "(has_key d ''interval'' \<and> has_key d ''schedule'' \<longrightarrow>
      \<not> valid cron items_schema (JObj d) \<and> \<not> valid cron main_schema (JArr (xs @ JObj d # ys)))
   \<and> (\<not> has_key d ''interval'' \<and> \<not> has_key d ''schedule'' \<longrightarrow>
      \<not> valid cron items_schema (JObj d) \<and> \<not> valid cron main_schema (JArr (xs @ JObj d # ys)))
   \<and> (has_key d ''interval'' \<noteq> has_key d ''schedule'' \<longrightarrow>
      valid_keyword cron names one_trigger (JObj d))"
  using items_schema_needs_one_trigger [of cron d]
  by (auto simp add: main_schema_array one_trigger_iff)

theorem exactly_one_trigger_witness:
  "has_key both_triggers ''interval'' \<and> has_key both_triggers ''schedule''
   \<and> \<not> valid (\<lambda>d. True) main_schema (JArr [JObj both_triggers])
   \<and> \<not> has_key no_trigger ''interval'' \<and> \<not> has_key no_trigger ''schedule''
   \<and> \<not> valid (\<lambda>d. True) main_schema (JArr [JObj no_trigger])
   \<and> valid_keyword (\<lambda>d. True) [] one_trigger (JObj tv_every_2h)
   \<and> valid (\<lambda>d. True) main_schema (JArr [JObj tv_every_2h])"
proof -
  have b: "has_key both_triggers ''interval''" "has_key both_triggers ''schedule''"
    by (simp_all add: both_triggers_def has_key_def)
  have n: "\<not> has_key no_trigger ''interval''" "\<not> has_key no_trigger ''schedule''"
    by (simp_all add: no_trigger_def has_key_def)
  have o: "has_key tv_every_2h ''interval'' \<noteq> has_key tv_every_2h ''schedule''"
    by (simp add: tv_every_2h_def has_key_def)
  have v: "valid (\<lambda>d. True) main_schema (JArr [JObj tv_every_2h])"
    by (simp add: schema_defs tv_every_2h_def)
  from exactly_one_trigger [of both_triggers "\<lambda>d. True" "[]" "[]"] b
  have 1: "\<not> valid (\<lambda>d. True) main_schema (JArr [JObj both_triggers])" by simp
  from exactly_one_trigger [of no_trigger "\<lambda>d. True" "[]" "[]"] n
  have 2: "\<not> valid (\<lambda>d. True) main_schema (JArr [JObj no_trigger])" by simp
  from exactly_one_trigger [of tv_every_2h "\<lambda>d. True" "[]" "[]" "[]"] o
  have 3: "valid_keyword (\<lambda>d. True) [] one_trigger (JObj tv_every_2h)" by blast
  from b n v 1 2 3 show ?thesis by simp
qed

section \<open>C8: timezone detection that fails\<close>

text \<open>
  C8: if \<^verbatim>\<open>tzlocal.get_localzone()\<close> returns the placeholder zone \<^verbatim>\<open>local\<close>, raises
  \<^verbatim>\<open>UnknownTimeZoneError\<close> or raises \<^verbatim>\<open>struct.error\<close>, then \<^verbatim>\<open>setup_scheduler\<close> falls back to
  UTC, logs the informational note (and, for \<^verbatim>\<open>struct.error\<close>, the warning), and still
  constructs the scheduler. The failure is not surfaced and prevents nothing: the outcome
  of the call and the scheduler it leaves are those of a start-up whose detection
  succeeded with the zone UTC.
\<close>

theorem timezone_fallback_to_utc:
  assumes z: "lz = Zone ''local'' \<or> lz = Unknown_time_zone_error \<or> lz = Struct_error m"
  shows "\<exists>out st' s'. setup_scheduler e lz stored st = (out, st')
      \<and> scheduler st' = Some s' \<and> timezone s' = ''UTC''
      \<and> (INFO, utc_message) \<in> set (log st')
      \<and> (lz = Struct_error m \<longrightarrow> (WARNING, ''Hiding exception from tzlocal: '' @ m) \<in> set (log st'))
      \<and> out = fst (setup_scheduler e (Zone ''UTC'') stored st)
      \<and> scheduler st' = scheduler (snd (setup_scheduler e (Zone ''UTC'') stored st))"
proof -
  let ?new = "\<lparr>running = False, timezone = ''UTC'', coalesce = True,
               misfire_grace_time = 60 * 60 * 24, jobs = stored, calls = []\<rparr>"
  let ?b = "st\<lparr>scheduler := Some ?new\<rparr>"
  define pre where "pre = (case lz of Struct_error m \<Rightarrow> [(WARNING, ''Hiding exception from tzlocal: '' @ m)]
                       | _ \<Rightarrow> [])"
  have r: "resolve_timezone lz st = (''UTC'', st\<lparr>log := log st @ pre @ [(INFO, utc_message)]\<rparr>)"
    unfolding pre_def by (rule resolve_timezone_fallback [OF z])
  have p: "lz = Struct_error m \<longrightarrow> pre = [(WARNING, ''Hiding exception from tzlocal: '' @ m)]"
    by (auto simp: pre_def)
  let ?L = "log st @ pre @ [(INFO, utc_message)]"
  have swap: "st\<lparr>log := l, scheduler := x\<rparr> = st\<lparr>scheduler := x, log := l\<rparr>" for l x
    by (cases st) simp
  have fail: "setup_scheduler e lz stored st = setup_jobs e (?b\<lparr>log := ?L\<rparr>)"
    by (simp add: setup_scheduler_def r swap)
  have ok: "setup_scheduler e (Zone ''UTC'') stored st = setup_jobs e (?b\<lparr>log := log st\<rparr>)"
    by (simp add: setup_scheduler_def resolve_timezone_utc)
  have sb: "scheduler ?b = Some ?new" by simp
  have "\<exists>out s' msgs. timezone s' = ''UTC'' \<and>
      (\<forall>l. setup_jobs e (?b\<lparr>log := l\<rparr>) = (out, ?b\<lparr>log := l @ msgs, scheduler := Some s'\<rparr>))"
  proof (cases "is_daemon st")
    case False
    then have "setup_jobs e (?b\<lparr>log := l\<rparr>) = (Returned (), ?b\<lparr>log := l @ [], scheduler := Some ?new\<rparr>)" for l
      by (simp add: setup_jobs_def)
    then show ?thesis by (intro exI [of _ "Returned ()"] exI [of _ ?new] exI [of _ "[]"]) simp
  next
    case True
    then have d: "is_daemon ?b" by simp
    from setup_jobs_shape [OF d sb, of e] show ?thesis by simp
  qed
  then obtain out s' msgs where t: "timezone s' = ''UTC''"
    and a: "\<And>l. setup_jobs e (?b\<lparr>log := l\<rparr>) = (out, ?b\<lparr>log := l @ msgs, scheduler := Some s'\<rparr>)"
    by blast
  have f1: "setup_scheduler e lz stored st = (out, ?b\<lparr>log := ?L @ msgs, scheduler := Some s'\<rparr>)"
    by (simp only: fail a)
  have f2: "setup_scheduler e (Zone ''UTC'') stored st =
      (out, ?b\<lparr>log := log st @ msgs, scheduler := Some s'\<rparr>)"
    by (simp only: ok a)
  from t p show ?thesis unfolding f1 f2 by auto
qed

theorem timezone_fallback_to_utc_witness:
  "fst (setup_scheduler env_ok (Struct_error ''unpack requires a string argument of length 44'') [] restarted) = Returned ()
   \<and> map_option timezone (scheduler (snd (setup_scheduler env_ok
         (Struct_error ''unpack requires a string argument of length 44'') [] restarted))) = Some ''UTC''
   \<and> is_running (snd (setup_scheduler env_ok
         (Struct_error ''unpack requires a string argument of length 44'') [] restarted))
   \<and> (INFO, utc_message) \<in> set (log (snd (setup_scheduler env_ok
         (Struct_error ''unpack requires a string argument of length 44'') [] restarted)))"
proof -
  let ?lz = "Struct_error ''unpack requires a string argument of length 44''"
  have z: "?lz = Zone ''local'' \<or> ?lz = Unknown_time_zone_error
      \<or> ?lz = Struct_error ''unpack requires a string argument of length 44''"
    by simp
  from timezone_fallback_to_utc [OF z, of env_ok "[]" restarted]
  obtain out st' s' where r: "setup_scheduler env_ok ?lz [] restarted = (out, st')"
    and s: "scheduler st' = Some s'" "timezone s' = ''UTC''"
    and n: "(INFO, utc_message) \<in> set (log st')"
    and o: "out = fst (setup_scheduler env_ok (Zone ''UTC'') [] restarted)"
    and q: "scheduler st' = scheduler (snd (setup_scheduler env_ok (Zone ''UTC'') [] restarted))"
    by blast
  have o': "fst (setup_scheduler env_ok (Zone ''UTC'') [] restarted) = Returned ()"
    by (simp add: restarted_def setup_scheduler_def resolve_timezone_def example_defs setup_jobs_defs)
  have q': "is_running (snd (setup_scheduler env_ok (Zone ''UTC'') [] restarted))"
    by (simp add: restarted_def setup_scheduler_def resolve_timezone_def example_defs setup_jobs_defs)
  from q q' have "is_running st'" by (simp add: is_running_def)
  with r s n o o' show ?thesis by simp
qed

section \<open>C9: creating a schedule while scheduling is off\<close>

text \<open>
  C9: if the \<^verbatim>\<open>schedules\<close> key is absent or \<^verbatim>\<open>False\<close>, Create replaces the value with an empty
  list before it appends the new config, so afterwards the list holds the new config alone.
  When persistence succeeds, the reconciliation that follows runs on that one-element list,
  not on the disabled sentinel: if the handler returns a response on a daemon with a
  scheduler, the response is a 200, the runtime's jobs are the new config's job alone and
  the runtime is running.
\<close>

theorem create_reenables_scheduling:
  assumes a: "schedules st = Absent \<or> schedules st = Disabled"
  shows "\<exists>out st'. schedules_POST e r d st = (out, st')
     \<and> schedules st' = Schedule_list [r] \<and> heap st' r = d
     \<and> (\<not> save_fails e \<longrightarrow>
          (out, st') =
            (case setup_jobs e (st\<lparr>heap := (heap st)(r := d), schedules := Schedule_list [r],
                                   saved := Saved_list [d]\<rparr>) of
               (Raised x, st2) \<Rightarrow> (Raised x, st2)
             | (Returned u, st2) \<Rightarrow>
                 (Returned (jsonify [(''schedule'',
                    JObj (dict_set ''id'' (JInt (int (py_id r))) d))] 200), st2)))
     \<and> (\<forall>resp. out = Returned resp \<longrightarrow> is_daemon st \<longrightarrow> scheduler st \<noteq> None \<longrightarrow>
          status resp = 200 \<and> set (job_ids st') = {unicode (py_id r)} \<and> is_running st')"
proof -
  let ?st1 = "st\<lparr>heap := (heap st)(r := d), schedules := Schedule_list [r]\<rparr>"
  let ?resp = "jsonify [(''schedule'', JObj (dict_set ''id'' (JInt (int (py_id r))) d))] 200"
  from a have en: "enable (schedules st) = []" by (auto simp: enable_def)
  have p: "schedules_POST e r d st = save_and_signal e ?resp ?st1"
    by (simp add: schedules_POST_reaches_save en)
  show ?thesis
  proof (cases "save_fails e")
    case True
    then show ?thesis by (simp add: p save_and_signal_fails)
  next
    case False
    let ?st2 = "?st1\<lparr>saved := Saved_list [d]\<rparr>"
    obtain o2 st3 where r: "setup_jobs e ?st2 = (o2, st3)" by (cases "setup_jobs e ?st2")
    from setup_jobs_keeps_config [OF r]
    have k: "schedules st3 = Schedule_list [r]" "heap st3 r = d" by simp_all
    have q: "schedules_POST e r d st =
        (case o2 of Raised x \<Rightarrow> (Raised x, st3) | Returned u \<Rightarrow> (Returned ?resp, st3))"
      using False r
      by (simp add: p save_and_signal_def save_config_def config_changed_def snapshot_def
            split: outcome.splits)
    show ?thesis
    proof (cases o2)
      case (Raised x)
      with q k r False show ?thesis by simp
    next
      case (Returned u)
      have conv: "set (job_ids st3) = {unicode (py_id r)} \<and> is_running st3"
        if d: "is_daemon st" and s: "scheduler st \<noteq> None"
      proof -
        from s obtain s0 where s0: "scheduler ?st2 = Some s0" by auto
        have d2: "is_daemon ?st2" using d by simp
        have l2: "schedules ?st2 = Schedule_list [r]" by simp
        have r': "setup_jobs e ?st2 = (Returned (), st3)" using r Returned by simp
        from setup_jobs_converges(1,2) [OF d2 l2 _ s0 r'] show ?thesis by simp
      qed
      from q k r False Returned conv show ?thesis by (simp add: jsonify_def)
    qed
  qed
qed

theorem create_reenables_scheduling_witness:
  "schedules switched_off = Disabled
   \<and> fst (schedules_POST env_ok 9 tv_every_2h switched_off) =
       Returned (jsonify [(''schedule'', JObj (tv_every_2h @ [(''id'', JInt 9)]))] 200)
   \<and> schedules (snd (schedules_POST env_ok 9 tv_every_2h switched_off)) = Schedule_list [9]
   \<and> set (job_ids (snd (schedules_POST env_ok 9 tv_every_2h switched_off))) = {''9''}
   \<and> is_running (snd (schedules_POST env_ok 9 tv_every_2h switched_off))"
proof -
  have a: "schedules switched_off = Absent \<or> schedules switched_off = Disabled"
    and d: "is_daemon switched_off" and s: "scheduler switched_off \<noteq> None"
    and l: "schedules switched_off = Disabled"
    by (simp_all add: switched_off_def a_state_def)
  have f: "fst (schedules_POST env_ok 9 tv_every_2h switched_off) =
       Returned (jsonify [(''schedule'', JObj (tv_every_2h @ [(''id'', JInt 9)]))] 200)"
    by (simp add: switched_off_def example_defs handler_defs setup_jobs_defs)
  have u: "unicode (py_id 9) = ''9''"
    by (simp add: py_id_def unicode.simps digit_def)
  from create_reenables_scheduling [OF a, of env_ok 9 tv_every_2h]
  obtain out st' where p: "schedules_POST env_ok 9 tv_every_2h switched_off = (out, st')"
    and k: "schedules st' = Schedule_list [9]"
    and c: "\<And>resp. out = Returned resp \<Longrightarrow> is_daemon switched_off \<Longrightarrow>
              scheduler switched_off \<noteq> None \<Longrightarrow>
              set (job_ids st') = {unicode (py_id 9)} \<and> is_running st'"
    by blast
  from p f have "out = Returned (jsonify [(''schedule'', JObj (tv_every_2h @ [(''id'', JInt 9)]))] 200)"
    by simp
  from c [OF this d s] k p l f u show ?thesis by simp
qed

section \<open>C10: the status code of Delete\<close>

text \<open>
  C10: every response \<^verbatim>\<open>delete_schedule\<close> returns has status 400. When the id is not found
  the response is the error body with status 400 and nothing changes; when the id is found
  and the deletion goes through, the response is the confirmation body, again with status
  400, and the entry is gone from the list.
\<close>

theorem delete_responds_400:
  "(delete_schedule e sid st = (Returned resp, st') \<longrightarrow> status resp = 400)
   \<and> (schedules st = Absent \<or> (\<exists>rs. schedules st = Schedule_list rs \<and> sid \<notin> set (map py_id rs)) \<longrightarrow>
        delete_schedule e sid st =
          (Returned (jsonify [(''error'', JStr ''invalid schedule id'')] 400), st))
   \<and> (schedules st = Schedule_list rs \<longrightarrow> sid \<in> set (map py_id rs) \<longrightarrow>
        delete_schedule e sid st = (Returned resp, st') \<longrightarrow>
        resp = jsonify [(''detail'', JStr ''deleted schedule'')] 400
        \<and> (\<exists>i < length rs. py_id (rs ! i) = sid
              \<and> schedules st' = Schedule_list (take i rs @ drop (Suc i) rs)))"
proof (intro conjI impI)
  assume r: "delete_schedule e sid st = (Returned resp, st')"
  show "status resp = 400"
  proof (cases "schedules st")
    case Absent
    with r show ?thesis by (auto simp: delete_schedule_def jsonify_def)
  next
    case Disabled
    with r show ?thesis by (simp add: delete_schedule_def)
  next
    case (Schedule_list rs)
    show ?thesis
    proof (cases "index_by_id sid rs")
      case None
      with Schedule_list r show ?thesis by (auto simp: delete_schedule_def jsonify_def)
    next
      case (Some i)
      from r show ?thesis
        unfolding delete_schedule_reaches_save [OF Schedule_list Some]
        by (auto simp: save_and_signal_def jsonify_def split: prod.splits outcome.splits)
    qed
  qed
next
  assume "schedules st = Absent \<or> (\<exists>rs. schedules st = Schedule_list rs \<and> sid \<notin> set (map py_id rs))"
  then show "delete_schedule e sid st =
          (Returned (jsonify [(''error'', JStr ''invalid schedule id'')] 400), st)"
  proof
    assume "schedules st = Absent"
    then show ?thesis by (simp add: delete_schedule_def)
  next
    assume "\<exists>rs. schedules st = Schedule_list rs \<and> sid \<notin> set (map py_id rs)"
    then obtain rs where l: "schedules st = Schedule_list rs" and n: "sid \<notin> set (map py_id rs)"
      by blast
    from n have "index_by_id sid rs = None" by (rule index_by_id_None_iff [THEN iffD2])
    with l show ?thesis by (simp add: delete_schedule_def)
  qed
next
  assume l: "schedules st = Schedule_list rs" and m: "sid \<in> set (map py_id rs)"
    and r: "delete_schedule e sid st = (Returned resp, st')"
  from m obtain i where i: "index_by_id sid rs = Some i"
    using index_by_id_None_iff [of sid rs] by (cases "index_by_id sid rs") auto
  let ?st1 = "st\<lparr>schedules := Schedule_list (take i rs @ drop (Suc i) rs)\<rparr>"
  from r have sv: "save_and_signal e (jsonify [(''detail'', JStr ''deleted schedule'')] 400) ?st1
      = (Returned resp, st')"
    unfolding delete_schedule_reaches_save [OF l i] .
  then obtain st2 where c: "setup_jobs e st2 = (Returned (), st')"
    and s2: "schedules st2 = schedules ?st1"
    and resp: "resp = jsonify [(''detail'', JStr ''deleted schedule'')] 400"
    by (auto simp: save_and_signal_def save_config_def config_changed_def
        split: prod.splits outcome.splits if_splits)
  from setup_jobs_keeps_config [OF c] s2
  have "schedules st' = Schedule_list (take i rs @ drop (Suc i) rs)" by simp
  with index_by_id_Some [OF i]
  show "\<exists>i < length rs. py_id (rs ! i) = sid
              \<and> schedules st' = Schedule_list (take i rs @ drop (Suc i) rs)"
    by blast
  from resp show "resp = jsonify [(''detail'', JStr ''deleted schedule'')] 400" .
qed

theorem delete_responds_400_witness:
  "schedules settled = Schedule_list [7]
   \<and> fst (delete_schedule env_ok 7 settled) =
       Returned (jsonify [(''detail'', JStr ''deleted schedule'')] 400)
   \<and> schedules (snd (delete_schedule env_ok 7 settled)) = Schedule_list []
   \<and> delete_schedule env_ok 8 settled =
       (Returned (jsonify [(''error'', JStr ''invalid schedule id'')] 400), settled)"
proof -
  have l: "schedules settled = Schedule_list [7]" by (simp add: settled_def a_state_def)
  have m: "7 \<in> set (map py_id [7])" and n: "8 \<notin> set (map py_id [7])"
    by (simp_all add: py_id_def)
  have f: "\<exists>resp. fst (delete_schedule env_ok 7 settled) = Returned resp"
    by (simp add: settled_def example_defs handler_defs setup_jobs_defs)
  then obtain resp where r: "delete_schedule env_ok 7 settled = (Returned resp, snd (delete_schedule env_ok 7 settled))"
    by (auto simp: prod_eq_iff)
  note t = delete_responds_400 [of env_ok 7 settled resp "snd (delete_schedule env_ok 7 settled)" "[7]"]
  note t8 = delete_responds_400 [of env_ok 8 settled]
  from t l m r have "resp = jsonify [(''detail'', JStr ''deleted schedule'')] 400
      \<and> schedules (snd (delete_schedule env_ok 7 settled)) = Schedule_list []"
    by auto
  moreover from t8 l n have "delete_schedule env_ok 8 settled =
       (Returned (jsonify [(''error'', JStr ''invalid schedule id'')] 400), settled)"
    by blast
  moreover from r have "fst (delete_schedule env_ok 7 settled) = Returned resp"
    by (metis fst_conv)
  ultimately show ?thesis using l by simp
qed

end
